theory Spec2Isabelle
  imports Complex_Main "HOL-Library.Monad_Syntax" "HOL-Library.AList"
    "HOL-Library.Product_Lexorder"
begin

section \<open>Python values used by the recommendation engine\<close>

text \<open>
  Floats are modelled as reals. A computation that can raise an exception returns an
  option: \<open>None\<close> stands for the raised exception (the routers turn every exception
  into an HTTP 500 response), \<open>Some v\<close> for the returned value.

  The recommenders compute with stored ratings (whole numbers from 1 to 5) and feature
  weights (between 0 and 1), far inside the range of the floats, and their arithmetic is
  that of the reals. On arbitrary floats one operation of the similarity functions can
  leave that range with an exception, \<open>x ** 2\<close>; it is modelled by \<open>pypow2\<close> in
  \<open>cosine_similarity\<close>, which has no caller in the repository, and in the variants
  \<open>pearson_correlation_float\<close> and \<open>cosine_similarity_features_float\<close> of the two
  functions the recommenders call.

  A Python \<open>dict\<close> is an association list in insertion order: assigning to a key that is
  present replaces its value in place, assigning to a new key appends it, which is what
  \<open>AList.update\<close> does.
\<close>

type_synonym ('k, 'v) pydict = "('k \<times> 'v) list"

definition keys :: "('k, 'v) pydict \<Rightarrow> 'k list" where
  "keys d = map fst d"

definition getitem :: "('k, 'v) pydict \<Rightarrow> 'k \<Rightarrow> 'v option" where
  \<comment> \<open>\<open>d[k]\<close>: raises KeyError when the key is missing.\<close>
  "getitem d k = map_of d k"

definition get_default :: "('k, 'v) pydict \<Rightarrow> 'k \<Rightarrow> 'v \<Rightarrow> 'v" where
  \<comment> \<open>\<open>d.get(k, default)\<close>\<close>
  "get_default d k dflt = (case map_of d k of None \<Rightarrow> dflt | Some v \<Rightarrow> v)"

definition pydiv :: "real \<Rightarrow> real \<Rightarrow> real option" where
  \<comment> \<open>\<open>x / y\<close>: raises ZeroDivisionError when \<open>y\<close> is zero.\<close>
  "pydiv x y = (if y = 0 then None else Some (x / y))"

definition pysqrt :: "real \<Rightarrow> real option" where
  \<comment> \<open>\<open>math.sqrt(x)\<close>: raises ValueError on a negative argument.\<close>
  "pysqrt x = (if x < 0 then None else Some (sqrt x))"

definition float_limit :: real where
  \<comment> \<open>the largest float is \<open>2 ^ 1024 - 2 ^ 971\<close>; a result from \<open>2 ^ 1024 - 2 ^ 970\<close> on
     rounds beyond it.\<close>
  "float_limit = 2 ^ 1024 - 2 ^ 970"

definition pypow2 :: "real \<Rightarrow> real option" where
  \<comment> \<open>\<open>x ** 2\<close> on a float: raises OverflowError when the result is out of range.\<close>
  "pypow2 x = (if float_limit \<le> x ^ 2 then None else Some (x ^ 2))"

fun sum_over :: "('a \<Rightarrow> real option) \<Rightarrow> 'a list \<Rightarrow> real option" where
  \<comment> \<open>\<open>sum(f(x) for x in xs)\<close>, where evaluating \<open>f(x)\<close> may raise.\<close>
  "sum_over f [] = Some 0"
| "sum_over f (x # xs) = do { v \<leftarrow> f x; s \<leftarrow> sum_over f xs; Some (v + s) }"

fun mapM :: "('a \<Rightarrow> 'b option) \<Rightarrow> 'a list \<Rightarrow> 'b list option" where
  \<comment> \<open>a loop building a list, where each step may raise.\<close>
  "mapM f [] = Some []"
| "mapM f (x # xs) = do { y \<leftarrow> f x; ys \<leftarrow> mapM f xs; Some (y # ys) }"

definition common_keys :: "('k, 'v) pydict \<Rightarrow> ('k, 'w) pydict \<Rightarrow> 'k list" where
  \<comment> \<open>\<open>set(d1.keys()) & set(d2.keys())\<close>; \<open>set(...)\<close> removes duplicates.\<close>
  "common_keys d1 d2 = filter (\<lambda>k. k \<in> set (keys d2)) (remdups (keys d1))"

definition union_keys :: "('k, 'v) pydict \<Rightarrow> ('k, 'w) pydict \<Rightarrow> 'k list" where
  \<comment> \<open>\<open>set(d1.keys()) | set(d2.keys())\<close>\<close>
  "union_keys d1 d2 = remdups (keys d1 @ keys d2)"

section \<open>Similarity engine\<close>

subsection \<open>collaborative\_filtering.py\<close>

definition cosine_similarity ::
  "('k, real) pydict \<Rightarrow> ('k, real) pydict \<Rightarrow> real option" where
  "cosine_similarity ratings1 ratings2 =
     (let common_items = common_keys ratings1 ratings2 in
      if length common_items = 0 then Some 0
      else do {
        dot_product \<leftarrow> sum_over (\<lambda>item. do {
            a \<leftarrow> getitem ratings1 item; b \<leftarrow> getitem ratings2 item; Some (a * b) })
          common_items;
        sq1 \<leftarrow> sum_over (\<lambda>item. do { a \<leftarrow> getitem ratings1 item; pypow2 a })
          common_items;
        magnitude1 \<leftarrow> pysqrt sq1;
        sq2 \<leftarrow> sum_over (\<lambda>item. do { b \<leftarrow> getitem ratings2 item; pypow2 b })
          common_items;
        magnitude2 \<leftarrow> pysqrt sq2;
        if magnitude1 = 0 \<or> magnitude2 = 0 then Some 0
        else pydiv dot_product (magnitude1 * magnitude2)
      })"

definition pearson_correlation ::
  "('k, real) pydict \<Rightarrow> ('k, real) pydict \<Rightarrow> real option" where
  "pearson_correlation ratings1 ratings2 =
     (let common_items = common_keys ratings1 ratings2 in
      if length common_items < 2 then Some 0
      else do {
        s1 \<leftarrow> sum_over (getitem ratings1) common_items;
        mean1 \<leftarrow> pydiv s1 (real (length common_items));
        s2 \<leftarrow> sum_over (getitem ratings2) common_items;
        mean2 \<leftarrow> pydiv s2 (real (length common_items));
        numerator \<leftarrow> sum_over (\<lambda>item. do {
            a \<leftarrow> getitem ratings1 item; b \<leftarrow> getitem ratings2 item;
            Some ((a - mean1) * (b - mean2)) })
          common_items;
        sum_sq_diff1 \<leftarrow> sum_over (\<lambda>item. do {
            a \<leftarrow> getitem ratings1 item; Some ((a - mean1) ^ 2) })
          common_items;
        sum_sq_diff2 \<leftarrow> sum_over (\<lambda>item. do {
            b \<leftarrow> getitem ratings2 item; Some ((b - mean2) ^ 2) })
          common_items;
        denominator \<leftarrow> pysqrt (sum_sq_diff1 * sum_sq_diff2);
        if denominator = 0 then Some 0
        else pydiv numerator denominator
      })"

subsection \<open>content\_based.py\<close>

definition cosine_similarity_features ::
  "('k, real) pydict \<Rightarrow> ('k, real) pydict \<Rightarrow> real option" where
  "cosine_similarity_features features1 features2 =
     (let all_features = union_keys features1 features2 in
      if length all_features = 0 then Some 0
      else do {
        let dot_product =
          sum_list (map (\<lambda>f. get_default features1 f 0 * get_default features2 f 0)
            all_features);
        magnitude1 \<leftarrow>
          pysqrt (sum_list (map (\<lambda>f. (get_default features1 f 0) ^ 2) all_features));
        magnitude2 \<leftarrow>
          pysqrt (sum_list (map (\<lambda>f. (get_default features2 f 0) ^ 2) all_features));
        if magnitude1 = 0 \<or> magnitude2 = 0 then Some 0
        else pydiv dot_product (magnitude1 * magnitude2)
      })"


subsection \<open>With the range of the floats\<close>

text \<open>
  The same two functions with \<open>x ** 2\<close> as the operation that can raise. They return what
  \<open>pearson_correlation\<close> and \<open>cosine_similarity_features\<close> return when the values are
  small (lemmas \<open>pearson_correlation_float_small\<close> and
  \<open>cosine_similarity_features_float_small\<close>).
\<close>

definition pearson_correlation_float ::
  "('k, real) pydict \<Rightarrow> ('k, real) pydict \<Rightarrow> real option" where
  "pearson_correlation_float ratings1 ratings2 =
     (let common_items = common_keys ratings1 ratings2 in
      if length common_items < 2 then Some 0
      else do {
        s1 \<leftarrow> sum_over (getitem ratings1) common_items;
        mean1 \<leftarrow> pydiv s1 (real (length common_items));
        s2 \<leftarrow> sum_over (getitem ratings2) common_items;
        mean2 \<leftarrow> pydiv s2 (real (length common_items));
        numerator \<leftarrow> sum_over (\<lambda>item. do {
            a \<leftarrow> getitem ratings1 item; b \<leftarrow> getitem ratings2 item;
            Some ((a - mean1) * (b - mean2)) })
          common_items;
        sum_sq_diff1 \<leftarrow> sum_over (\<lambda>item. do {
            a \<leftarrow> getitem ratings1 item; pypow2 (a - mean1) })
          common_items;
        sum_sq_diff2 \<leftarrow> sum_over (\<lambda>item. do {
            b \<leftarrow> getitem ratings2 item; pypow2 (b - mean2) })
          common_items;
        denominator \<leftarrow> pysqrt (sum_sq_diff1 * sum_sq_diff2);
        if denominator = 0 then Some 0
        else pydiv numerator denominator
      })"

definition cosine_similarity_features_float ::
  "('k, real) pydict \<Rightarrow> ('k, real) pydict \<Rightarrow> real option" where
  "cosine_similarity_features_float features1 features2 =
     (let all_features = union_keys features1 features2 in
      if length all_features = 0 then Some 0
      else do {
        let dot_product =
          sum_list (map (\<lambda>f. get_default features1 f 0 * get_default features2 f 0)
            all_features);
        sq1 \<leftarrow> sum_over (\<lambda>f. pypow2 (get_default features1 f 0)) all_features;
        magnitude1 \<leftarrow> pysqrt sq1;
        sq2 \<leftarrow> sum_over (\<lambda>f. pypow2 (get_default features2 f 0)) all_features;
        magnitude2 \<leftarrow> pysqrt sq2;
        if magnitude1 = 0 \<or> magnitude2 = 0 then Some 0
        else pydiv dot_product (magnitude1 * magnitude2)
      })"

section \<open>Identifiers and documents\<close>

subsection \<open>bson.ObjectId\<close>

text \<open>
  \<open>bson.ObjectId\<close> is a library class, not part of the repository. Its constructor, applied
  to a \<open>str\<close>, accepts exactly the strings of length 24 that \<open>bytes.fromhex\<close> can decode and
  keeps the decoded bytes; \<open>str\<close> of an ObjectId is the lower-case hexadecimal text of those
  bytes; two ObjectIds are equal when their bytes are. \<open>bytes.fromhex\<close> reads hexadecimal
  digits of either case, two per byte, and skips ASCII white space between bytes.
  A byte is a natural number below 256.
\<close>

datatype object_id = ObjectId (binary: "nat list")

definition isspace :: "char \<Rightarrow> bool" where
  "isspace c = (c \<in> set [CHR 0x20, CHR 0x09, CHR 0x0A, CHR 0x0B, CHR 0x0C, CHR 0x0D])"

definition hex_val :: "char \<Rightarrow> nat option" where
  "hex_val c =
     (let n = (of_char c :: nat) in
      if 48 \<le> n \<and> n \<le> 57 then Some (n - 48)
      else if 97 \<le> n \<and> n \<le> 102 then Some (n - 87)
      else if 65 \<le> n \<and> n \<le> 70 then Some (n - 55)
      else None)"

fun fromhex :: "string \<Rightarrow> nat list option" where
  "fromhex [] = Some []"
| "fromhex [c] = (if isspace c then Some [] else None)"
| "fromhex (c # d # cs) =
     (if isspace c then fromhex (d # cs)
      else case (hex_val c, hex_val d) of
             (Some h, Some l) \<Rightarrow> map_option ((#) (16 * h + l)) (fromhex cs)
           | _ \<Rightarrow> None)"

definition objectid :: "string \<Rightarrow> object_id option" where
  \<comment> \<open>\<open>ObjectId(s)\<close>: raises InvalidId on a string it does not accept.\<close>
  "objectid s = (if length s = 24 then map_option ObjectId (fromhex s) else None)"

definition is_valid :: "string \<Rightarrow> bool" where
  \<comment> \<open>\<open>ObjectId.is_valid(s)\<close>\<close>
  "is_valid s = (s \<noteq> [] \<and> objectid s \<noteq> None)"

definition hexdigit :: "nat \<Rightarrow> char" where
  \<comment> \<open>the digit of a half byte; a half byte is below 16\<close>
  "hexdigit n = (if n < 16 then ''0123456789abcdef'' ! n else CHR ''?'')"

definition str_oid :: "object_id \<Rightarrow> string" where
  \<comment> \<open>\<open>str(oid)\<close>\<close>
  "str_oid x = concat (map (\<lambda>b. [hexdigit (b div 16), hexdigit (b mod 16)]) (binary x))"

subsection \<open>Stored documents\<close>

text \<open>
  The values of an item's metadata dict have the shapes that models/item.py declares for
  \<open>MovieMetadata\<close>, \<open>ProductMetadata\<close> and \<open>BookMetadata\<close>: a string, a list of strings, or
  null. The display fields of an item (title, name, description, time stamps) take part
  in no computation of the engine and are left out of the record. A product's category is
  a top-level field of the document (routers/items.py, \<open>create_item\<close>); other items have
  none.
\<close>

datatype jvalue = JNull | JStr string | JList "string list"

record item =
  oid :: object_id
  item_type :: string
  genres :: "string list"
  tags :: "string list"
  category :: "string option"
  metadata :: "(string, jvalue) pydict"

record rating_doc =
  user_id :: string
  item_id :: string
  rating :: int
  created_at :: int

record db =
  items :: "item list"
  ratings :: "rating_doc list"

text \<open>
  A field of a stored document, as MongoDB compares it: a string never equals an
  ObjectId, whatever its text.
\<close>

datatype bson = BObjectId object_id | BString string

definition find_one :: "db \<Rightarrow> object_id \<Rightarrow> item option" where
  \<comment> \<open>\<open>db.items.find_one({"_id": x})\<close>\<close>
  "find_one d x = find (\<lambda>it. oid it = x) (items d)"

definition ratings_of :: "db \<Rightarrow> string \<Rightarrow> rating_doc list" where
  \<comment> \<open>\<open>db.ratings.find({"user_id": u})\<close>\<close>
  "ratings_of d u = filter (\<lambda>r. user_id r = u) (ratings d)"

record recommendation =
  doc :: item
  rec_id :: string
  recommendation_score :: real
  recommendation_type :: string
  similarity_score :: "real option"
  normalized_score :: "real option"
  collaborative_score :: "real option"
  content_score :: "real option"
  avg_rating :: "real option"
  rating_count :: "nat option"

definition make_rec :: "item \<Rightarrow> real \<Rightarrow> string \<Rightarrow> recommendation" where
  \<comment> \<open>\<open>item["id"] = str(item["_id"])\<close>, the score and the type tag written into the
     document.\<close>
  "make_rec it score ty =
     \<lparr>doc = it, rec_id = str_oid (oid it), recommendation_score = score,
      recommendation_type = ty, similarity_score = None, normalized_score = None,
      collaborative_score = None, content_score = None, avg_rating = None,
      rating_count = None\<rparr>"

definition sort_desc :: "('a \<Rightarrow> real) \<Rightarrow> 'a list \<Rightarrow> 'a list" where
  \<comment> \<open>\<open>xs.sort(key=f, reverse=True)\<close>: stable, elements with equal keys keep their
     order.\<close>
  "sort_desc f xs = sort_key (\<lambda>x. - f x) xs"

section \<open>Collaborative recommender (collaborative\_filtering.py)\<close>

definition get_user_ratings_dict :: "db \<Rightarrow> string \<Rightarrow> (string, real) pydict" where
  "get_user_ratings_dict d u =
     fold (\<lambda>r acc. AList.update (item_id r) (real_of_int (rating r)) acc) (ratings_of d u) []"

definition get_all_users_ratings :: "db \<Rightarrow> (string, (string, real) pydict) pydict" where
  "get_all_users_ratings d =
     fold (\<lambda>r acc.
        AList.update (user_id r)
          (AList.update (item_id r) (real_of_int (rating r)) (get_default acc (user_id r) []))
          acc)
       (ratings d) []"

definition find_similar_users ::
  "db \<Rightarrow> string \<Rightarrow> nat \<Rightarrow> nat \<Rightarrow> (string \<times> real) list option" where
  "find_similar_users d u min_common_items top_n =
     (let user_ratings = get_user_ratings_dict d u in
      if length user_ratings = 0 then Some []
      else do {
        found \<leftarrow> mapM (\<lambda>(other_user_id, other_ratings).
            if other_user_id = u then Some []
            else if length (common_keys user_ratings other_ratings) < min_common_items
            then Some []
            else do {
              similarity \<leftarrow> pearson_correlation user_ratings other_ratings;
              Some (if similarity > 0 then [(other_user_id, similarity)] else [])
            })
          (get_all_users_ratings d);
        Some (take top_n (sort_desc snd (concat found)))
      })"

type_synonym item_scores = "(string, real \<times> nat) pydict"

definition add_score :: "string \<Rightarrow> real \<Rightarrow> item_scores \<Rightarrow> item_scores" where
  \<comment> \<open>\<open>item_scores[item_id]["score"] += x; item_scores[item_id]["count"] += 1\<close> on a
     defaultdict whose default entry is score 0.0, count 0.\<close>
  "add_score i x acc =
     (let (s, c) = get_default acc i (0, 0) in AList.update i (s + x, c + 1) acc)"

definition accumulate_user ::
  "db \<Rightarrow> string list \<Rightarrow> real \<Rightarrow> string \<times> real \<Rightarrow> item_scores \<Rightarrow> item_scores" where
  \<comment> \<open>one round of the loop over \<open>similar_users\<close>\<close>
  "accumulate_user d user_rated_items min_similarity su acc =
     (let (similar_user_id, similarity) = su in
      if similarity < min_similarity then acc
      else fold (\<lambda>(i, r) a.
             if i \<notin> set user_rated_items then add_score i (similarity * r) a else a)
           (get_user_ratings_dict d similar_user_id) acc)"

definition fetch_scored :: "db \<Rightarrow> string \<times> real \<times> nat \<Rightarrow> recommendation list option" where
  \<comment> \<open>one round of the final loop: \<open>ObjectId(rec["item_id"])\<close> may raise; an item that
     is not stored is skipped.\<close>
  "fetch_scored d rc =
     (let (i, score, n) = rc in
      do {
        x \<leftarrow> objectid i;
        Some (case find_one d x of
                None \<Rightarrow> []
              | Some it \<Rightarrow> [make_rec it score ''collaborative''])
      })"

definition generate_collaborative_recommendations ::
  "db \<Rightarrow> string \<Rightarrow> nat \<Rightarrow> real \<Rightarrow> recommendation list option" where
  "generate_collaborative_recommendations d u limit min_similarity =
     (let user_ratings = get_user_ratings_dict d u;
          user_rated_items = keys user_ratings in
      do {
        similar_users \<leftarrow> find_similar_users d u 3 50;
        if length similar_users = 0 then Some []
        else do {
          let item_scores =
            fold (accumulate_user d user_rated_items min_similarity) similar_users [];
          recommendations \<leftarrow> mapM (\<lambda>(i, s, c).
              if c > 0 then do { avg_score \<leftarrow> pydiv s (real c); Some [(i, avg_score, c)] }
              else Some [])
            item_scores;
          let recommendations = sort_desc (\<lambda>(i, s, c). s) (concat recommendations);
          result \<leftarrow> mapM (fetch_scored d) (take limit recommendations);
          Some (concat result)
        }
      })"

section \<open>Content recommender (content\_based.py)\<close>

definition scalar_feature ::
  "(string, jvalue) pydict \<Rightarrow> string \<Rightarrow> string \<Rightarrow> real \<Rightarrow> (string, real) pydict
     \<Rightarrow> (string, real) pydict" where
  \<comment> \<open>\<open>if metadata.get(key): features[f"{prefix}{metadata[key]}"] = w\<close>; null and the
     empty string are falsy.\<close>
  "scalar_feature md key prefix w features =
     (case map_of md key of
        Some (JStr s) \<Rightarrow> if s \<noteq> [] then AList.update (prefix @ s) w features else features
      | _ \<Rightarrow> features)"

definition extract_item_features :: "item \<Rightarrow> (string, real) pydict" where
  "extract_item_features it =
     (let features = fold (\<lambda>genre f. AList.update (''genre:'' @ genre) 1 f) (genres it) [];
          features = fold (\<lambda>tag f. AList.update (''tag:'' @ tag) 1 f) (tags it) features;
          features = AList.update (''type:'' @ item_type it) 1 features;
          md = metadata it;
          features =
            (if item_type it = ''movie'' then
               let features = scalar_feature md ''director'' ''director:'' 1 features in
               (case map_of md ''cast'' of
                  Some (JList cast) \<Rightarrow>
                    fold (\<lambda>actor f. AList.update (''actor:'' @ actor) (1 / 2) f)
                      (take 5 cast) features
                | _ \<Rightarrow> features)
             else features);
          features =
            (if item_type it = ''product'' then
               let features = scalar_feature md ''brand'' ''brand:'' 1 features in
               (case category it of
                  Some c \<Rightarrow>
                    if c \<noteq> [] then AList.update (''category:'' @ c) 1 features else features
                | None \<Rightarrow> features)
             else features);
          features =
            (if item_type it = ''book'' then
               let features = scalar_feature md ''author'' ''author:'' 1 features in
               scalar_feature md ''publisher'' ''publisher:'' (1 / 2) features
             else features)
      in features)"

fun foldM :: "('a \<Rightarrow> 's \<Rightarrow> 's option) \<Rightarrow> 'a list \<Rightarrow> 's \<Rightarrow> 's option" where
  \<comment> \<open>a loop updating an accumulator, where each round may raise.\<close>
  "foldM f [] s = Some s"
| "foldM f (x # xs) s = do { s' \<leftarrow> f x s; foldM f xs s' }"

fun pymax :: "real list \<Rightarrow> real option" where
  \<comment> \<open>\<open>max(xs)\<close>: raises ValueError on an empty sequence.\<close>
  "pymax [] = None"
| "pymax (x # xs) = Some (fold max xs x)"

definition counter_add :: "string \<Rightarrow> real \<Rightarrow> (string, real) pydict \<Rightarrow> (string, real) pydict" where
  \<comment> \<open>\<open>feature_weights[feature] += x\<close> on a \<open>Counter\<close>\<close>
  "counter_add k x acc = AList.update k (get_default acc k 0 + x) acc"

definition get_user_preferred_features ::
  "db \<Rightarrow> string \<Rightarrow> real \<Rightarrow> (string, real) pydict option" where
  "get_user_preferred_features d u min_rating =
     (let rs = ratings_of d u in
      if length rs = 0 then Some []
      else do {
        item_ids \<leftarrow> mapM (\<lambda>r. objectid (item_id r))
          (filter (\<lambda>r. real_of_int (rating r) \<ge> min_rating) rs);
        if length item_ids = 0 then Some []
        else do {
          let its = filter (\<lambda>i. oid i \<in> set item_ids) (items d);
          feature_weights \<leftarrow> foldM (\<lambda>r fw.
              if real_of_int (rating r) < min_rating then Some fw
              else do {
                x \<leftarrow> objectid (item_id r);
                Some (case find (\<lambda>i. oid i = x) its of
                        None \<Rightarrow> fw
                      | Some it \<Rightarrow>
                          (let rating_weight = real_of_int (rating r) / 5 in
                           fold (\<lambda>(feature, v) a. counter_add feature (v * rating_weight) a)
                             (extract_item_features it) fw))
              })
            rs [];
          if length feature_weights = 0 then Some []
          else do {
            max_weight \<leftarrow> pymax (map snd feature_weights);
            if max_weight > 0
            then mapM (\<lambda>(feature, w). do { q \<leftarrow> pydiv w max_weight; Some (feature, q) })
                   feature_weights
            else Some feature_weights
          }
        }
      })"

definition find_similar_items ::
  "db \<Rightarrow> string \<Rightarrow> nat \<Rightarrow> real \<Rightarrow> recommendation list option" where
  "find_similar_items d i limit min_similarity =
     (if \<not> is_valid i then Some []
      else do {
        x \<leftarrow> objectid i;
        case find_one d x of
          None \<Rightarrow> Some []
        | Some it \<Rightarrow> do {
            let item_features = extract_item_features it;
            let all_items =
              filter (\<lambda>other. item_type other = item_type it \<and> oid other \<noteq> x) (items d);
            similarities \<leftarrow> mapM (\<lambda>other_item. do {
                similarity \<leftarrow>
                  cosine_similarity_features item_features (extract_item_features other_item);
                Some (if similarity \<ge> min_similarity
                      then [(make_rec other_item similarity ''content_based'')
                              \<lparr>similarity_score := Some similarity\<rparr>]
                      else [])
              }) all_items;
            Some (take limit (sort_desc recommendation_score (concat similarities)))
          }
      })"

definition generate_content_based_recommendations ::
  "db \<Rightarrow> string \<Rightarrow> nat \<Rightarrow> real \<Rightarrow> recommendation list option" where
  "generate_content_based_recommendations d u limit min_similarity =
     do {
       user_features \<leftarrow> get_user_preferred_features d u 3;
       if length user_features = 0 then Some []
       else do {
         user_rated_item_ids \<leftarrow> mapM (\<lambda>r. objectid (item_id r)) (ratings_of d u);
         similarities \<leftarrow> mapM (\<lambda>it.
             if oid it \<in> set user_rated_item_ids then Some []
             else do {
               similarity \<leftarrow> cosine_similarity_features user_features (extract_item_features it);
               Some (if similarity \<ge> min_similarity
                     then [make_rec it similarity ''content_based'']
                     else [])
             })
           (items d);
         Some (take limit (sort_desc recommendation_score (concat similarities)))
       }
     }"

section \<open>Popularity and trending ranker (popular\_recommendations.py)\<close>

text \<open>
  The aggregation pipelines run inside MongoDB. Their stages are modelled as list
  operations: \<open>$match\<close> is a filter, \<open>$lookup\<close> pairs each item with the ratings whose
  foreign field equals the item's local field as a stored value, \<open>$avg\<close> of an empty array
  and any arithmetic on null give null (\<open>None\<close>), \<open>$sort\<close> puts null last when descending,
  \<open>$limit\<close> rejects a limit that is not positive, and \<open>$project\<close> drops the fields it does
  not list (here the category). MongoDB leaves the order of documents with equal sort keys
  open; the model keeps their order.
\<close>

definition match_filter ::
  "string option \<Rightarrow> string option \<Rightarrow> string option \<Rightarrow> item \<Rightarrow> bool" where
  "match_filter ty cat genre it =
     ((case ty of None \<Rightarrow> True | Some t \<Rightarrow> item_type it = t) \<and>
      (case cat of None \<Rightarrow> True | Some c \<Rightarrow> c = [] \<or> category it = Some c) \<and>
      (case genre of None \<Rightarrow> True | Some g \<Rightarrow> g = [] \<or> g \<in> set (genres it)))"

definition lookup_ratings :: "db \<Rightarrow> bson \<Rightarrow> rating_doc list" where
  \<comment> \<open>\<open>$lookup\<close> from \<open>ratings\<close> on the foreign field \<open>item_id\<close>, which \<open>create_rating\<close>
     stores as a string.\<close>
  "lookup_ratings d local = filter (\<lambda>r. BString (item_id r) = local) (ratings d)"

definition avg :: "real list \<Rightarrow> real option" where
  "avg xs = (if xs = [] then None else Some (sum_list xs / real (length xs)))"

definition round2 :: "real \<Rightarrow> real" where
  \<comment> \<open>\<open>round(x, 2)\<close>, ties to even\<close>
  "round2 x =
     (let y = x * 100; f = \<lfloor>y\<rfloor>; r = y - of_int f in
      of_int (if r < 1 / 2 then f else if r > 1 / 2 then f + 1
              else if even f then f else f + 1) / 100)"

definition null_last :: "real option \<Rightarrow> bool \<times> real" where
  \<comment> \<open>the key of a descending \<open>$sort\<close>\<close>
  "null_last p = (p = None, - (case p of Some s \<Rightarrow> s | None \<Rightarrow> 0))"

definition get_popular_items ::
  "db \<Rightarrow> string option \<Rightarrow> string option \<Rightarrow> string option \<Rightarrow> nat \<Rightarrow> int
     \<Rightarrow> recommendation list option" where
  "get_popular_items d ty cat genre limit min_ratings =
     (if limit = 0 then None
      else
        let rows = map (\<lambda>it. (it, lookup_ratings d (BObjectId (oid it))))
                     (filter (match_filter ty cat genre) (items d));
            rows = filter (\<lambda>(it, rs). int (length rs) \<ge> min_ratings) rows;
            rows = map (\<lambda>(it, rs). (it, avg (map (\<lambda>r. real_of_int (rating r)) rs), length rs))
                     rows;
            rows = map (\<lambda>(it, a, n).
                       (it, a, n, map_option (\<lambda>a. a * (1 + (1 / 10) * real n)) a)) rows;
            rows = take limit (sort_key (\<lambda>(it, a, n, p). null_last p) rows)
        in mapM (\<lambda>(it, a, n, p). do {
               popularity_score \<leftarrow> p;
               avg_rating \<leftarrow> a;
               Some ((make_rec (it\<lparr>category := None\<rparr>) popularity_score ''popular'')
                       \<lparr>avg_rating := Some (round2 avg_rating), rating_count := Some n\<rparr>)
             }) rows)"

definition get_trending_items ::
  "db \<Rightarrow> int \<Rightarrow> string option \<Rightarrow> int \<Rightarrow> nat \<Rightarrow> recommendation list option" where
  \<comment> \<open>\<open>now\<close> is the value of \<open>datetime.utcnow()\<close>, in seconds.\<close>
  "get_trending_items d now ty days limit =
     (if limit = 0 then None
      else
        let cutoff_date = now - days * 86400;
            rows = map (\<lambda>it.
                       (it, filter (\<lambda>r. created_at r \<ge> cutoff_date)
                              (lookup_ratings d (BString (str_oid (oid it))))))
                     (filter (match_filter ty None None) (items d));
            rows = filter (\<lambda>(it, rs). length rs > 0) rows;
            rows = map (\<lambda>(it, rs).
                       (it, map_option (\<lambda>a. real (length rs) * a)
                              (avg (map (\<lambda>r. real_of_int (rating r)) rs)))) rows;
            rows = take limit (sort_key (\<lambda>(it, t). null_last t) rows)
        in Some (map (\<lambda>(it, t).
               make_rec (it\<lparr>category := None\<rparr>) (case t of Some s \<Rightarrow> s | None \<Rightarrow> 0)
                 ''trending'') rows))"

section \<open>Hybrid blender (recommendation\_service.py)\<close>

definition normalize_scores :: "recommendation list \<Rightarrow> recommendation list option" where
  "normalize_scores recommendations =
     (if recommendations = [] then Some []
      else do {
        max_score \<leftarrow> pymax (map recommendation_score recommendations);
        if max_score = 0 then Some recommendations
        else mapM (\<lambda>r. do {
               q \<leftarrow> pydiv (recommendation_score r) max_score;
               Some (r\<lparr>normalized_score := Some q\<rparr>)
             }) recommendations
      })"

record hybrid_entry =
  h_item :: "recommendation option"
  h_collaborative_score :: real
  h_content_score :: real
  h_count :: nat

definition default_entry :: hybrid_entry where
  "default_entry =
     \<lparr>h_item = None, h_collaborative_score = 0, h_content_score = 0, h_count = 0\<rparr>"

definition merge_collaborative ::
  "recommendation \<Rightarrow> (string, hybrid_entry) pydict \<Rightarrow> (string, hybrid_entry) pydict" where
  "merge_collaborative r acc =
     (if rec_id r \<noteq> [] then
        let e = get_default acc (rec_id r) default_entry in
        AList.update (rec_id r)
          (e\<lparr>h_item := Some r,
             h_collaborative_score := (case normalized_score r of Some q \<Rightarrow> q | None \<Rightarrow> 0),
             h_count := h_count e + 1\<rparr>) acc
      else acc)"

definition merge_content ::
  "recommendation \<Rightarrow> (string, hybrid_entry) pydict \<Rightarrow> (string, hybrid_entry) pydict" where
  "merge_content r acc =
     (if rec_id r \<noteq> [] then
        let e = get_default acc (rec_id r) default_entry in
        AList.update (rec_id r)
          (e\<lparr>h_item := (if h_item e = None then Some r else h_item e),
             h_content_score := (case normalized_score r of Some q \<Rightarrow> q | None \<Rightarrow> 0),
             h_count := h_count e + 1\<rparr>) acc
      else acc)"

definition blend :: "real \<Rightarrow> real \<Rightarrow> string \<times> hybrid_entry \<Rightarrow> recommendation list" where
  \<comment> \<open>one round of the loop over \<open>item_scores.items()\<close>\<close>
  "blend collaborative_weight content_weight kv =
     (let data = snd kv in
      case h_item data of
        None \<Rightarrow> []
      | Some r \<Rightarrow>
          let hybrid_score = collaborative_weight * h_collaborative_score data
                             + content_weight * h_content_score data;
              hybrid_score = (if h_count data > 1 then hybrid_score * (12 / 10)
                              else hybrid_score)
          in [r\<lparr>recommendation_score := hybrid_score,
                recommendation_type := ''hybrid'',
                collaborative_score := Some (h_collaborative_score data),
                content_score := Some (h_content_score data)\<rparr>])"

definition generate_hybrid_recommendations ::
  "db \<Rightarrow> string \<Rightarrow> nat \<Rightarrow> real \<Rightarrow> real \<Rightarrow> real \<Rightarrow> recommendation list option" where
  "generate_hybrid_recommendations d u limit collaborative_weight content_weight
       min_similarity =
     do {
       collaborative_recs \<leftarrow>
         generate_collaborative_recommendations d u (limit * 2) min_similarity;
       content_recs \<leftarrow>
         generate_content_based_recommendations d u (limit * 2) min_similarity;
       collaborative_recs \<leftarrow> normalize_scores collaborative_recs;
       content_recs \<leftarrow> normalize_scores content_recs;
       let item_scores = fold merge_collaborative collaborative_recs [];
       let item_scores = fold merge_content content_recs item_scores;
       let recommendations =
         concat (map (blend collaborative_weight content_weight) item_scores);
       Some (take limit (sort_desc recommendation_score recommendations))
     }"

definition get_personalized_recommendations ::
  "db \<Rightarrow> string \<Rightarrow> nat \<Rightarrow> string \<Rightarrow> recommendation list option" where
  \<comment> \<open>the recommenders' defaults: \<open>min_similarity\<close> 0.3, weights 0.6 and 0.4\<close>
  "get_personalized_recommendations d u limit method =
     (if method = ''collaborative''
      then generate_collaborative_recommendations d u limit (3 / 10)
      else if method = ''content''
      then generate_content_based_recommendations d u limit (3 / 10)
      else generate_hybrid_recommendations d u limit (6 / 10) (4 / 10) (3 / 10))"

section \<open>Caller layer (routers/recommendations.py)\<close>

datatype http_response = Ok "recommendation list" | HttpError nat

definition with_fallback ::
  "db \<Rightarrow> nat \<Rightarrow> recommendation list option \<Rightarrow> http_response" where
  \<comment> \<open>the body shared by the four personalised endpoints: the \<open>try\<close> block with its
     fallback, any exception answered with status 500.\<close>
  "with_fallback d limit computed =
     (case do {
             recommendations \<leftarrow> computed;
             if length recommendations = 0
             then get_popular_items d None None None limit 1
             else Some recommendations
           } of
        None \<Rightarrow> HttpError 500
      | Some recommendations \<Rightarrow> Ok recommendations)"

definition get_personalized_recommendations_endpoint ::
  "db \<Rightarrow> string \<Rightarrow> string \<Rightarrow> nat \<Rightarrow> http_response" where
  "get_personalized_recommendations_endpoint d current_user method limit =
     (if method \<in> set [''hybrid'', ''collaborative'', ''content''] \<and> 1 \<le> limit \<and> limit \<le> 100
      then with_fallback d limit (get_personalized_recommendations d current_user limit method)
      else HttpError 422)"

definition get_hybrid_recommendations ::
  "db \<Rightarrow> string \<Rightarrow> nat \<Rightarrow> real \<Rightarrow> real \<Rightarrow> http_response" where
  "get_hybrid_recommendations d current_user limit collaborative_weight content_weight =
     (if limit < 1 \<or> 100 < limit \<or> collaborative_weight < 0 \<or> 1 < collaborative_weight
         \<or> content_weight < 0 \<or> 1 < content_weight
      then HttpError 422
      else if \<bar>collaborative_weight + content_weight - 1\<bar> > 1 / 100 then HttpError 400
      else with_fallback d limit
             (generate_hybrid_recommendations d current_user limit collaborative_weight
                content_weight (3 / 10)))"

definition get_collaborative_recommendations ::
  "db \<Rightarrow> string \<Rightarrow> nat \<Rightarrow> real \<Rightarrow> http_response" where
  "get_collaborative_recommendations d current_user limit min_similarity =
     (if limit < 1 \<or> 100 < limit \<or> min_similarity < 0 \<or> 1 < min_similarity
      then HttpError 422
      else with_fallback d limit
             (generate_collaborative_recommendations d current_user limit min_similarity))"

definition get_content_based_recommendations ::
  "db \<Rightarrow> string \<Rightarrow> nat \<Rightarrow> real \<Rightarrow> http_response" where
  "get_content_based_recommendations d current_user limit min_similarity =
     (if limit < 1 \<or> 100 < limit \<or> min_similarity < 0 \<or> 1 < min_similarity
      then HttpError 422
      else with_fallback d limit
             (generate_content_based_recommendations d current_user limit min_similarity))"

section \<open>Predicates and scenarios of the specification\<close>

text \<open>
  The three sums of the Pearson formula over the common keys: the numerator and the two
  sums of squared deviations. A key of the common set is present in both dicts, so the
  default of \<open>get_default\<close> is never used here.
\<close>

definition pearson_parts :: "('k, real) pydict \<Rightarrow> ('k, real) pydict \<Rightarrow> real \<times> real \<times> real" where
  "pearson_parts r1 r2 =
     (let c = common_keys r1 r2;
          a = (\<lambda>k. get_default r1 k 0);
          b = (\<lambda>k. get_default r2 k 0);
          mean1 = sum_list (map a c) / real (length c);
          mean2 = sum_list (map b c) / real (length c)
      in (sum_list (map (\<lambda>k. (a k - mean1) * (b k - mean2)) c),
          sum_list (map (\<lambda>k. (a k - mean1) ^ 2) c),
          sum_list (map (\<lambda>k. (b k - mean2) ^ 2) c)))"



subsection \<open>Concrete stores\<close>

definition mk_id :: "char \<Rightarrow> string" where
  \<comment> \<open>an identifier of 24 characters: 23 zeros and a last digit\<close>
  "mk_id c = ''00000000000000000000000'' @ [c]"

definition mk_oid :: "nat \<Rightarrow> object_id" where
  \<comment> \<open>the ObjectId of 12 bytes: 11 zero bytes and a last byte\<close>
  "mk_oid n = ObjectId [0, 0, 0, 0, 0, 0, 0, 0, 0, 0, 0, n]"

definition plain_item :: "nat \<Rightarrow> string \<Rightarrow> string list \<Rightarrow> item" where
  "plain_item n ty gs =
     \<lparr>oid = mk_oid n, item_type = ty, genres = gs, tags = [], category = None,
      metadata = []\<rparr>"

definition rate :: "string \<Rightarrow> string \<Rightarrow> int \<Rightarrow> rating_doc" where
  "rate u i v = \<lparr>user_id = u, item_id = i, rating = v, created_at = 0\<rparr>"

definition scenario_db :: db where
  \<comment> \<open>user A rates item1 = 5 and item2 = 4; user B rates item1 = 5, item2 = 4 and
     item3 = 5; there are no other ratings.\<close>
  "scenario_db =
     \<lparr>items = [plain_item 1 ''movie'' [], plain_item 2 ''movie'' [], plain_item 3 ''movie'' []],
      ratings = [rate ''A'' (mk_id CHR ''1'') 5, rate ''A'' (mk_id CHR ''2'') 4,
                 rate ''B'' (mk_id CHR ''1'') 5, rate ''B'' (mk_id CHR ''2'') 4,
                 rate ''B'' (mk_id CHR ''3'') 5]\<rparr>"

definition scenario_db3 :: db where
  \<comment> \<open>the same with a third item rated by both: item4 = 3.\<close>
  "scenario_db3 =
     \<lparr>items = [plain_item 1 ''movie'' [], plain_item 2 ''movie'' [], plain_item 3 ''movie'' [],
               plain_item 4 ''movie'' []],
      ratings = [rate ''A'' (mk_id CHR ''1'') 5, rate ''A'' (mk_id CHR ''2'') 4,
                 rate ''A'' (mk_id CHR ''4'') 3,
                 rate ''B'' (mk_id CHR ''1'') 5, rate ''B'' (mk_id CHR ''2'') 4,
                 rate ''B'' (mk_id CHR ''3'') 5, rate ''B'' (mk_id CHR ''4'') 3]\<rparr>"

definition case_db :: db where
  \<comment> \<open>users A and B both rate items 1, 2 and 3 (5, 4, 3) and the item whose ObjectId
     ends in the byte 0x0d (5); B's rating of that last item was posted with the
     identifier in upper case.\<close>
  "case_db =
     \<lparr>items = [plain_item 1 ''movie'' [], plain_item 2 ''movie'' [], plain_item 3 ''movie'' [],
               plain_item 13 ''movie'' []],
      ratings = [rate ''A'' (mk_id CHR ''1'') 5, rate ''A'' (mk_id CHR ''2'') 4,
                 rate ''A'' (mk_id CHR ''3'') 3, rate ''A'' (mk_id CHR ''d'') 5,
                 rate ''B'' (mk_id CHR ''1'') 5, rate ''B'' (mk_id CHR ''2'') 4,
                 rate ''B'' (mk_id CHR ''3'') 3, rate ''B'' (mk_id CHR ''D'') 5]\<rparr>"

definition rated_db :: db where
  \<comment> \<open>one item in the catalog, rated 5 by user B; user A has rated nothing.\<close>
  "rated_db =
     \<lparr>items = [plain_item 1 ''movie'' [''action'']],
      ratings = [rate ''B'' (mk_id CHR ''1'') 5]\<rparr>"

definition content_only_db :: db where
  \<comment> \<open>two action movies; the only rating is user A's 5 for the first.\<close>
  "content_only_db =
     \<lparr>items = [plain_item 2 ''movie'' [''action''], plain_item 3 ''movie'' [''action'']],
      ratings = [rate ''A'' (mk_id CHR ''2'') 5]\<rparr>"

definition product_with_category :: item where
  \<comment> \<open>a product as \<open>create_item\<close> stores it: the category is a field of the document.\<close>
  "product_with_category =
     \<lparr>oid = mk_oid 1, item_type = ''product'', genres = [], tags = [],
      category = Some ''tools'', metadata = [(''brand'', JStr ''acme'')]\<rparr>"

definition product_category_in_metadata :: item where
  \<comment> \<open>a product whose category is an entry of its metadata map only.\<close>
  "product_category_in_metadata =
     \<lparr>oid = mk_oid 1, item_type = ''product'', genres = [], tags = [],
      category = None,
      metadata = [(''brand'', JStr ''acme''), (''category'', JStr ''tools'')]\<rparr>"

subsection \<open>Collaborative scoring\<close>

definition contributions :: "db \<Rightarrow> real \<Rightarrow> (string \<times> real) list \<Rightarrow> string \<Rightarrow> real list" where
  \<comment> \<open>what the neighbours contribute to one item, in the order of the neighbours: a
     neighbour whose similarity reaches \<open>min_similarity\<close> and who has rated the item
     contributes similarity times rating.\<close>
  "contributions d min_similarity similar_users i =
     concat (map (\<lambda>(v, similarity).
        if similarity < min_similarity then []
        else (case getitem (get_user_ratings_dict d v) i of
                None \<Rightarrow> []
              | Some r \<Rightarrow> [similarity * r])) similar_users)"

subsection \<open>Well-formed stores\<close>

definition valid_store :: "db \<Rightarrow> bool" where
  \<comment> \<open>every rating has a value from 1 to 5, as \<open>RatingBase\<close> enforces on each write, and
     every item's ObjectId has its 12 bytes.\<close>
  "valid_store d =
     (list_all (\<lambda>r. 1 \<le> rating r \<and> rating r \<le> 5) (ratings d)
      \<and> list_all (\<lambda>it. length (binary (oid it)) = 12) (items d))"

subsection \<open>Hybrid blending\<close>

definition nz :: "recommendation \<Rightarrow> real" where
  \<comment> \<open>\<open>rec.get("normalized_score", 0)\<close>\<close>
  "nz r = (case normalized_score r of Some q \<Rightarrow> q | None \<Rightarrow> 0)"

definition entry_of :: "recommendation \<Rightarrow> string \<times> hybrid_entry" where
  \<comment> \<open>the accumulator entry of a record that only the collaborative list holds\<close>
  "entry_of r = (rec_id r, \<lparr>h_item = Some r, h_collaborative_score = nz r,
                            h_content_score = 0, h_count = 1\<rparr>)"

definition centry_of :: "recommendation \<Rightarrow> string \<times> hybrid_entry" where
  \<comment> \<open>the accumulator entry of a record that only the content list holds\<close>
  "centry_of r = (rec_id r, \<lparr>h_item = Some r, h_collaborative_score = 0,
                             h_content_score = nz r, h_count = 1\<rparr>)"

definition mixed_db :: db where
  \<comment> \<open>four action movies (items 2, 3, 4 and 7) and two books (items 5 and 6). A has rated
     the first three movies 5, 4, 3; B has rated them alike, and the books 4 and 5.\<close>
  "mixed_db =
     \<lparr>items = [plain_item 2 ''movie'' [''action''], plain_item 3 ''movie'' [''action''],
               plain_item 4 ''movie'' [''action''], plain_item 5 ''book'' [],
               plain_item 6 ''book'' [], plain_item 7 ''movie'' [''action'']],
      ratings = [rate ''A'' (mk_id CHR ''2'') 5, rate ''A'' (mk_id CHR ''3'') 4,
                 rate ''A'' (mk_id CHR ''4'') 3,
                 rate ''B'' (mk_id CHR ''2'') 5, rate ''B'' (mk_id CHR ''3'') 4,
                 rate ''B'' (mk_id CHR ''4'') 3, rate ''B'' (mk_id CHR ''5'') 4,
                 rate ''B'' (mk_id CHR ''6'') 5]\<rparr>"

subsection \<open>Inputs of the data model\<close>

definition rating_map :: "('k, real) pydict \<Rightarrow> bool" where
  \<comment> \<open>the values are whole numbers from 0 to 5: the ratings of the data model, and 0.\<close>
  "rating_map d = list_all (\<lambda>kv. snd kv \<in> set [0, 1, 2, 3, 4, 5]) d"

definition weight_vector :: "('k, real) pydict \<Rightarrow> bool" where
  \<comment> \<open>the weights of a feature vector or of a user profile lie between 0 and 1.\<close>
  "weight_vector f = list_all (\<lambda>kv. 0 \<le> snd kv \<and> snd kv \<le> 1) f"

definition huge :: real where
  \<comment> \<open>a float (about 4e180) whose square is beyond the largest float\<close>
  "huge = 2 ^ 600"

section \<open>Auxiliary lemmas\<close>

subsection \<open>Loops that cannot raise\<close>

lemma sum_over_Some:
  "(\<And>x. x \<in> set xs \<Longrightarrow> f x = Some (g x)) \<Longrightarrow> sum_over f xs = Some (sum_list (map g xs))"
  by (induction xs) auto

lemma mapM_Some:
  "(\<And>x. x \<in> set xs \<Longrightarrow> f x = Some (g x)) \<Longrightarrow> mapM f xs = Some (map g xs)"
  by (induction xs) auto

lemma getitem_get_default:
  "k \<in> set (keys d) \<Longrightarrow> getitem d k = Some (get_default d k dflt)"
  unfolding getitem_def get_default_def keys_def
  by (cases "map_of d k") (auto simp: map_of_eq_None_iff)

lemma common_keys_left: "k \<in> set (common_keys d1 d2) \<Longrightarrow> k \<in> set (keys d1)"
  and common_keys_right: "k \<in> set (common_keys d1 d2) \<Longrightarrow> k \<in> set (keys d2)"
  by (auto simp: common_keys_def)

lemma sum_list_sq_nonneg: "0 \<le> sum_list (map (\<lambda>k. (f k :: real) ^ 2) xs)"
  by (induction xs) auto

lemma pearson_correlation_eq:
  "pearson_correlation r1 r2 =
     Some (if length (common_keys r1 r2) < 2 then 0
           else case pearson_parts r1 r2 of (num, s1, s2) \<Rightarrow>
             if sqrt (s1 * s2) = 0 then 0 else num / sqrt (s1 * s2))"
proof (cases "length (common_keys r1 r2) < 2")
  case True
  then show ?thesis by (simp add: pearson_correlation_def)
next
  case False
  let ?c = "common_keys r1 r2"
  let ?a = "\<lambda>k. get_default r1 k (0::real)"
  let ?b = "\<lambda>k. get_default r2 k (0::real)"
  have a: "\<And>k. k \<in> set ?c \<Longrightarrow> getitem r1 k = Some (?a k)"
    by (simp add: getitem_get_default common_keys_left)
  have b: "\<And>k. k \<in> set ?c \<Longrightarrow> getitem r2 k = Some (?b k)"
    by (simp add: getitem_get_default common_keys_right)
  have n: "real (length ?c) \<noteq> 0" using False by auto
  have s1: "sum_over (getitem r1) ?c = Some (sum_list (map ?a ?c))"
    by (rule sum_over_Some) (rule a)
  have s2: "sum_over (getitem r2) ?c = Some (sum_list (map ?b ?c))"
    by (rule sum_over_Some) (rule b)
  have num: "\<And>m1 m2. sum_over (\<lambda>item. do {
            x \<leftarrow> getitem r1 item; y \<leftarrow> getitem r2 item;
            Some ((x - m1) * (y - m2)) }) ?c = Some (sum_list (map (\<lambda>k. (?a k - m1) * (?b k - m2)) ?c))"
    by (rule sum_over_Some) (simp add: a b)
  have q1: "\<And>m1. sum_over (\<lambda>item. do {
            x \<leftarrow> getitem r1 item; Some ((x - m1) ^ 2) }) ?c = Some (sum_list (map (\<lambda>k. (?a k - m1) ^ 2) ?c))"
    by (rule sum_over_Some) (simp add: a)
  have q2: "\<And>m2. sum_over (\<lambda>item. do {
            y \<leftarrow> getitem r2 item; Some ((y - m2) ^ 2) }) ?c = Some (sum_list (map (\<lambda>k. (?b k - m2) ^ 2) ?c))"
    by (rule sum_over_Some) (simp add: b)
  have nonneg: "\<And>m1 m2. \<not> sum_list (map (\<lambda>k. (?a k - m1) ^ 2) ?c) * sum_list (map (\<lambda>k. (?b k - m2) ^ 2) ?c) < 0"
    by (simp add: not_less sum_list_sq_nonneg)
  show ?thesis
    using False n
    by (simp add: pearson_correlation_def Let_def s1 s2 num q1 q2 pydiv_def pysqrt_def nonneg pearson_parts_def)
qed


lemma sum_list_sq_not_neg: "(sum_list (map (\<lambda>k. (f k :: real) ^ 2) xs) < 0) = False"
  using sum_list_sq_nonneg[of f xs] by simp

lemma sum_list_sq_eq_0: "sum_list (map (\<lambda>k. (f k :: real) ^ 2) xs) = 0 \<longleftrightarrow> (\<forall>k\<in>set xs. f k = 0)"
  by (induction xs) (auto simp: add_nonneg_eq_0_iff sum_list_sq_nonneg)

lemma sum_list_const: "(\<And>k. k \<in> set xs \<Longrightarrow> f k = (c::real)) \<Longrightarrow> sum_list (map f xs) = real (length xs) * c"
  by (induction xs) (auto simp: algebra_simps)

lemma pearson_parts_const1:
  assumes "\<And>k. k \<in> set (common_keys r1 r2) \<Longrightarrow> get_default r1 k 0 = c"
  shows "fst (snd (pearson_parts r1 r2)) = 0"
proof (cases "common_keys r1 r2 = []")
  case True then show ?thesis by (simp add: pearson_parts_def)
next
  case False
  then have n: "real (length (common_keys r1 r2)) \<noteq> 0" by simp
  have "sum_list (map (\<lambda>k. get_default r1 k 0) (common_keys r1 r2)) = real (length (common_keys r1 r2)) * c"
    by (rule sum_list_const) (rule assms)
  then have m: "sum_list (map (\<lambda>k. get_default r1 k 0) (common_keys r1 r2)) / real (length (common_keys r1 r2)) = c"
    using n by simp
  show ?thesis
    by (simp add: pearson_parts_def Let_def m sum_list_sq_eq_0 assms)
qed

lemma pearson_parts_const2:
  assumes "\<And>k. k \<in> set (common_keys r1 r2) \<Longrightarrow> get_default r2 k 0 = c"
  shows "snd (snd (pearson_parts r1 r2)) = 0"
proof (cases "common_keys r1 r2 = []")
  case True then show ?thesis by (simp add: pearson_parts_def)
next
  case False
  then have n: "real (length (common_keys r1 r2)) \<noteq> 0" by simp
  have "sum_list (map (\<lambda>k. get_default r2 k 0) (common_keys r1 r2)) = real (length (common_keys r1 r2)) * c"
    by (rule sum_list_const) (rule assms)
  then have m: "sum_list (map (\<lambda>k. get_default r2 k 0) (common_keys r1 r2)) / real (length (common_keys r1 r2)) = c"
    using n by simp
  show ?thesis
    by (simp add: pearson_parts_def Let_def m sum_list_sq_eq_0 assms)
qed

lemma pearson_zero_cases:
  assumes "length (common_keys r1 r2) < 2
      \<or> (\<exists>c. \<forall>k\<in>set (common_keys r1 r2). get_default r1 k 0 = c)
      \<or> (\<exists>c. \<forall>k\<in>set (common_keys r1 r2). get_default r2 k 0 = c)"
  shows "pearson_correlation r1 r2 = Some 0"
proof -
  obtain num s1 s2 where p: "pearson_parts r1 r2 = (num, s1, s2)"
    by (cases "pearson_parts r1 r2") auto
  from assms consider "length (common_keys r1 r2) < 2"
    | c where "\<forall>k\<in>set (common_keys r1 r2). get_default r1 k 0 = c"
    | c where "\<forall>k\<in>set (common_keys r1 r2). get_default r2 k 0 = c"
    by blast
  then show ?thesis
  proof cases
    case 1 then show ?thesis by (simp add: pearson_correlation_eq)
  next
    case 2
    then have "s1 = 0" using pearson_parts_const1[of r1 r2 c] p by simp
    then show ?thesis by (simp add: pearson_correlation_eq p)
  next
    case 3
    then have "s2 = 0" using pearson_parts_const2[of r1 r2 c] p by simp
    then show ?thesis by (simp add: pearson_correlation_eq p)
  qed
qed

lemma cosine_similarity_features_eq:
  "cosine_similarity_features f1 f2 =
     Some (let c = union_keys f1 f2;
               n1 = sqrt (sum_list (map (\<lambda>k. (get_default f1 k 0) ^ 2) c));
               n2 = sqrt (sum_list (map (\<lambda>k. (get_default f2 k 0) ^ 2) c))
           in if c = [] \<or> n1 = 0 \<or> n2 = 0 then 0
              else sum_list (map (\<lambda>k. get_default f1 k 0 * get_default f2 k 0) c) / (n1 * n2))"
  by (simp add: cosine_similarity_features_def Let_def pysqrt_def pydiv_def
        sum_list_sq_not_neg)

subsection \<open>Inside the range of the floats\<close>

lemma float_limit_large: "2 ^ 1023 \<le> float_limit"
proof -
  have "(2::real) ^ 970 \<le> 2 ^ 1023" by (rule power_increasing) simp_all
  moreover have "(2::real) ^ 1024 = 2 * 2 ^ 1023" by simp
  ultimately show ?thesis unfolding float_limit_def by linarith
qed

lemma pypow2_small: "\<bar>x\<bar> \<le> 16 \<Longrightarrow> pypow2 x = Some (x ^ 2)"
proof -
  assume a: "\<bar>x\<bar> \<le> 16"
  then have "x ^ 2 \<le> 16 ^ 2" by (metis abs_ge_zero power2_abs power_mono)
  also have "\<dots> = (2::real) ^ 8" by simp
  also have "\<dots> < 2 ^ 1023" by (rule power_strict_increasing) simp_all
  finally have "x ^ 2 < float_limit" using float_limit_large by linarith
  then show ?thesis by (simp add: pypow2_def)
qed

lemma pypow2_huge: "pypow2 huge = None"
proof -
  have "float_limit \<le> (2::real) ^ 1024" by (simp add: float_limit_def)
  also have "\<dots> \<le> 2 ^ 1200" by (rule power_increasing) simp_all
  also have "\<dots> = huge ^ 2" by (simp add: huge_def power_mult[symmetric])
  finally show ?thesis by (simp add: pypow2_def)
qed

lemma rating_mapD:
  assumes "rating_map d"
  shows "0 \<le> get_default d k 0 \<and> get_default d k 0 \<le> 5"
proof (cases "map_of d k")
  case None
  then show ?thesis by (simp add: get_default_def)
next
  case (Some v)
  then have "(k, v) \<in> set d" by (rule map_of_SomeD)
  with assms have "v \<in> set [0, 1, 2, 3, 4, 5]"
    by (auto simp: rating_map_def list_all_iff)
  then show ?thesis using Some by (auto simp: get_default_def)
qed

lemma weight_vectorD:
  assumes "weight_vector d"
  shows "0 \<le> get_default d k 0 \<and> get_default d k 0 \<le> 1"
proof (cases "map_of d k")
  case None
  then show ?thesis by (simp add: get_default_def)
next
  case (Some v)
  then have "(k, v) \<in> set d" by (rule map_of_SomeD)
  with assms have "0 \<le> v \<and> v \<le> 1"
    by (auto simp: weight_vector_def list_all_iff)
  then show ?thesis using Some by (simp add: get_default_def)
qed

lemma sum_list_bounds:
  "(\<And>x. x \<in> set xs \<Longrightarrow> 0 \<le> f x \<and> f x \<le> (b::real)) \<Longrightarrow>
   0 \<le> sum_list (map f xs) \<and> sum_list (map f xs) \<le> real (length xs) * b"
  by (induction xs) (auto simp: algebra_simps intro: add_nonneg_nonneg add_mono)

lemma mean_bounds:
  assumes "\<And>x. x \<in> set xs \<Longrightarrow> 0 \<le> f x \<and> f x \<le> (b::real)" and "xs \<noteq> []"
  shows "0 \<le> sum_list (map f xs) / real (length xs)
       \<and> sum_list (map f xs) / real (length xs) \<le> b"
proof -
  have n: "0 < real (length xs)" using assms(2) by simp
  from sum_list_bounds[of xs f b, OF assms(1)]
  have "0 \<le> sum_list (map f xs)" "sum_list (map f xs) \<le> real (length xs) * b" by simp_all
  then show ?thesis using n by (simp add: pos_divide_le_eq mult.commute)
qed

lemma rating_map_pow:
  assumes "rating_map d"
  shows "pypow2 (get_default d k 0) = Some ((get_default d k 0) ^ 2)"
proof -
  from rating_mapD[OF assms, of k] have "\<bar>get_default d k 0\<bar> \<le> 16" by linarith
  then show ?thesis by (rule pypow2_small)
qed

lemma weight_vector_pow:
  assumes "weight_vector d"
  shows "pypow2 (get_default d k 0) = Some ((get_default d k 0) ^ 2)"
proof -
  from weight_vectorD[OF assms, of k] have "\<bar>get_default d k 0\<bar> \<le> 16" by linarith
  then show ?thesis by (rule pypow2_small)
qed

lemma cosine_similarity_small:
  assumes "rating_map r1" and "rating_map r2"
  shows "cosine_similarity r1 r2 =
     Some (let c = common_keys r1 r2;
               n1 = sqrt (sum_list (map (\<lambda>k. (get_default r1 k 0) ^ 2) c));
               n2 = sqrt (sum_list (map (\<lambda>k. (get_default r2 k 0) ^ 2) c))
           in if c = [] \<or> n1 = 0 \<or> n2 = 0 then 0
              else sum_list (map (\<lambda>k. get_default r1 k 0 * get_default r2 k 0) c) / (n1 * n2))"
proof -
  let ?c = "common_keys r1 r2"
  let ?a = "\<lambda>k. get_default r1 k (0::real)"
  let ?b = "\<lambda>k. get_default r2 k (0::real)"
  have a: "\<And>k. k \<in> set ?c \<Longrightarrow> getitem r1 k = Some (?a k)"
    by (simp add: getitem_get_default common_keys_left)
  have b: "\<And>k. k \<in> set ?c \<Longrightarrow> getitem r2 k = Some (?b k)"
    by (simp add: getitem_get_default common_keys_right)
  have pa: "\<And>k. pypow2 (?a k) = Some ((?a k) ^ 2)"
    by (rule rating_map_pow[OF assms(1)])
  have pb: "\<And>k. pypow2 (?b k) = Some ((?b k) ^ 2)"
    by (rule rating_map_pow[OF assms(2)])
  have dot: "sum_over (\<lambda>item. do {
            x \<leftarrow> getitem r1 item; y \<leftarrow> getitem r2 item; Some (x * y) }) ?c
          = Some (sum_list (map (\<lambda>k. ?a k * ?b k) ?c))"
    by (rule sum_over_Some) (simp add: a b)
  have q1: "sum_over (\<lambda>item. do { x \<leftarrow> getitem r1 item; pypow2 x }) ?c
          = Some (sum_list (map (\<lambda>k. (?a k) ^ 2) ?c))"
    by (rule sum_over_Some) (simp add: a pa)
  have q2: "sum_over (\<lambda>item. do { y \<leftarrow> getitem r2 item; pypow2 y }) ?c
          = Some (sum_list (map (\<lambda>k. (?b k) ^ 2) ?c))"
    by (rule sum_over_Some) (simp add: b pb)
  show ?thesis
    by (simp add: cosine_similarity_def Let_def dot q1 q2 pysqrt_def pydiv_def
        sum_list_sq_not_neg)
qed

lemma pearson_correlation_float_small:
  assumes "rating_map r1" and "rating_map r2"
  shows "pearson_correlation_float r1 r2 = pearson_correlation r1 r2"
proof (cases "length (common_keys r1 r2) < 2")
  case True
  then show ?thesis by (simp add: pearson_correlation_float_def pearson_correlation_def)
next
  case False
  let ?c = "common_keys r1 r2"
  let ?a = "\<lambda>k. get_default r1 k (0::real)"
  let ?b = "\<lambda>k. get_default r2 k (0::real)"
  let ?m1 = "sum_list (map ?a ?c) / real (length ?c)"
  let ?m2 = "sum_list (map ?b ?c) / real (length ?c)"
  have ne: "?c \<noteq> []" using False by auto
  have a: "\<And>k. k \<in> set ?c \<Longrightarrow> getitem r1 k = Some (?a k)"
    by (simp add: getitem_get_default common_keys_left)
  have b: "\<And>k. k \<in> set ?c \<Longrightarrow> getitem r2 k = Some (?b k)"
    by (simp add: getitem_get_default common_keys_right)
  have n: "real (length ?c) \<noteq> 0" using False by auto
  have m1: "0 \<le> ?m1 \<and> ?m1 \<le> 5"
    by (rule mean_bounds) (simp_all add: rating_mapD[OF assms(1)] ne)
  have m2: "0 \<le> ?m2 \<and> ?m2 \<le> 5"
    by (rule mean_bounds) (simp_all add: rating_mapD[OF assms(2)] ne)
  have pa: "\<And>k. pypow2 (?a k - ?m1) = Some ((?a k - ?m1) ^ 2)"
  proof -
    fix k
    from rating_mapD[OF assms(1), of k] m1 have "\<bar>?a k - ?m1\<bar> \<le> 16" by linarith
    then show "pypow2 (?a k - ?m1) = Some ((?a k - ?m1) ^ 2)" by (rule pypow2_small)
  qed
  have pb: "\<And>k. pypow2 (?b k - ?m2) = Some ((?b k - ?m2) ^ 2)"
  proof -
    fix k
    from rating_mapD[OF assms(2), of k] m2 have "\<bar>?b k - ?m2\<bar> \<le> 16" by linarith
    then show "pypow2 (?b k - ?m2) = Some ((?b k - ?m2) ^ 2)" by (rule pypow2_small)
  qed
  have s1: "sum_over (getitem r1) ?c = Some (sum_list (map ?a ?c))"
    by (rule sum_over_Some) (rule a)
  have s2: "sum_over (getitem r2) ?c = Some (sum_list (map ?b ?c))"
    by (rule sum_over_Some) (rule b)
  have q1: "sum_over (\<lambda>item. do { x \<leftarrow> getitem r1 item; pypow2 (x - ?m1) }) ?c
          = sum_over (\<lambda>item. do { x \<leftarrow> getitem r1 item; Some ((x - ?m1) ^ 2) }) ?c"
  proof -
    have "sum_over (\<lambda>item. do { x \<leftarrow> getitem r1 item; pypow2 (x - ?m1) }) ?c
          = Some (sum_list (map (\<lambda>k. (?a k - ?m1) ^ 2) ?c))"
      by (rule sum_over_Some) (simp add: a pa)
    moreover have "sum_over (\<lambda>item. do { x \<leftarrow> getitem r1 item; Some ((x - ?m1) ^ 2) }) ?c
          = Some (sum_list (map (\<lambda>k. (?a k - ?m1) ^ 2) ?c))"
      by (rule sum_over_Some) (simp add: a)
    ultimately show ?thesis by simp
  qed
  have q2: "sum_over (\<lambda>item. do { y \<leftarrow> getitem r2 item; pypow2 (y - ?m2) }) ?c
          = sum_over (\<lambda>item. do { y \<leftarrow> getitem r2 item; Some ((y - ?m2) ^ 2) }) ?c"
  proof -
    have "sum_over (\<lambda>item. do { y \<leftarrow> getitem r2 item; pypow2 (y - ?m2) }) ?c
          = Some (sum_list (map (\<lambda>k. (?b k - ?m2) ^ 2) ?c))"
      by (rule sum_over_Some) (simp add: b pb)
    moreover have "sum_over (\<lambda>item. do { y \<leftarrow> getitem r2 item; Some ((y - ?m2) ^ 2) }) ?c
          = Some (sum_list (map (\<lambda>k. (?b k - ?m2) ^ 2) ?c))"
      by (rule sum_over_Some) (simp add: b)
    ultimately show ?thesis by simp
  qed
  show ?thesis
    using False n
    by (simp add: pearson_correlation_float_def pearson_correlation_def Let_def s1 s2
        pydiv_def q1 q2)
qed

lemma cosine_similarity_features_float_small:
  assumes "weight_vector f1" and "weight_vector f2"
  shows "cosine_similarity_features_float f1 f2 = cosine_similarity_features f1 f2"
proof -
  let ?c = "union_keys f1 f2"
  have pa: "\<And>k. pypow2 (get_default f1 k 0) = Some ((get_default f1 k 0) ^ 2)"
    by (rule weight_vector_pow[OF assms(1)])
  have pb: "\<And>k. pypow2 (get_default f2 k 0) = Some ((get_default f2 k 0) ^ 2)"
    by (rule weight_vector_pow[OF assms(2)])
  have q1: "sum_over (\<lambda>f. pypow2 (get_default f1 f 0)) ?c
      = Some (sum_list (map (\<lambda>f. (get_default f1 f 0) ^ 2) ?c))"
    by (rule sum_over_Some) (rule pa)
  have q2: "sum_over (\<lambda>f. pypow2 (get_default f2 f 0)) ?c
      = Some (sum_list (map (\<lambda>f. (get_default f2 f 0) ^ 2) ?c))"
    by (rule sum_over_Some) (rule pb)
  show ?thesis
    by (simp add: cosine_similarity_features_float_def cosine_similarity_features_def Let_def
        q1 q2)
qed




subsection \<open>The popularity join\<close>

text \<open>
  The \<open>$lookup\<close> of \<open>get_popular_items\<close> compares the item's \<open>_id\<close>, an ObjectId, with
  the rating's \<open>item_id\<close>, a string: no rating is ever joined, so no item reaches a
  positive \<open>min_ratings\<close>.
\<close>

lemma popular_empty:
  "0 < limit \<Longrightarrow> 1 \<le> k \<Longrightarrow> get_popular_items d ty cat g limit k = Some []"
  by (simp add: get_popular_items_def lookup_ratings_def Let_def filter_empty_conv split_beta)

subsection \<open>Feature dicts\<close>

lemma map_of_fold_update:
  "map_of (fold (\<lambda>g f. AList.update (h g) v f) gs acc) k =
     (if k \<in> h ` set gs then Some v else map_of acc k)"
  by (induction gs arbitrary: acc) (auto simp: update_conv')

lemma map_of_scalar_feature:
  "map_of (scalar_feature md key p w acc) k =
     (case map_of md key of
        Some (JStr s) \<Rightarrow> if s \<noteq> [] \<and> k = p @ s then Some w else map_of acc k
      | _ \<Rightarrow> map_of acc k)"
  by (auto simp: scalar_feature_def update_conv' split: option.splits jvalue.splits)


subsection \<open>Results of loops, sorting and lookups\<close>

lemma mapM_SomeD:
  "mapM f xs = Some ys \<Longrightarrow> y \<in> set ys \<Longrightarrow> \<exists>x\<in>set xs. f x = Some y"
  by (induction xs arbitrary: ys) (auto split: bind_splits)

lemma set_sort_desc [simp]: "set (sort_desc f xs) = set xs"
  by (simp add: sort_desc_def)

lemma find_one_oid: "find_one d x = Some it \<Longrightarrow> oid it = x \<and> it \<in> set (items d)"
  by (auto simp: find_one_def find_Some_iff)


subsection \<open>The accumulator of the collaborative recommender\<close>

lemma distinct_fold_update:
  "distinct (map fst acc) \<Longrightarrow>
   distinct (map fst (fold (\<lambda>r a. AList.update (k r) (v r) a) rs acc))"
  by (induction rs arbitrary: acc) (simp_all add: distinct_update)

lemma distinct_get_user_ratings_dict: "distinct (map fst (get_user_ratings_dict d u))"
  unfolding get_user_ratings_dict_def by (rule distinct_fold_update) simp

lemma map_of_add_score:
  "map_of (add_score i x acc) k =
     (if k = i then Some (fst (get_default acc i (0, 0)) + x, snd (get_default acc i (0, 0)) + 1)
      else map_of acc k)"
  by (simp add: add_score_def update_conv' split_beta)

lemma distinct_add_score: "distinct (map fst acc) \<Longrightarrow> distinct (map fst (add_score i x acc))"
  by (simp add: add_score_def split_beta distinct_update)

lemma get_default_map_of: "get_default acc i dflt = (case map_of acc i of None \<Rightarrow> dflt | Some v \<Rightarrow> v)"
  by (simp add: get_default_def)

lemma inner_fold:
  "distinct (map fst us) \<Longrightarrow>
   map_of (fold (\<lambda>(i, r) a. if i \<notin> set rated then add_score i (sim * r) a else a) us acc) k =
     (case map_of us k of
        Some r \<Rightarrow> if k \<notin> set rated
                  then Some (fst (get_default acc k (0, 0)) + sim * r,
                             snd (get_default acc k (0, 0)) + 1)
                  else map_of acc k
      | None \<Rightarrow> map_of acc k)"
proof (induction us arbitrary: acc)
  case Nil
  then show ?case by simp
next
  case (Cons p us)
  obtain j r where p: "p = (j, r)" by (cases p)
  from Cons.prems p have d: "distinct (map fst us)" and j: "map_of us j = None"
    by (auto simp: map_of_eq_None_iff)
  show ?case
    using j by (auto simp: p Cons.IH[OF d] map_of_add_score get_default_map_of split: option.splits)
qed

lemma inner_fold_distinct:
  "distinct (map fst acc) \<Longrightarrow>
   distinct (map fst (fold (\<lambda>(i, r) a. if i \<notin> set rated then add_score i (sim * r) a else a) us acc))"
  by (induction us arbitrary: acc) (auto simp: distinct_add_score)

lemma accumulate_user_distinct:
  "distinct (map fst acc) \<Longrightarrow> distinct (map fst (accumulate_user d rated ms su acc))"
  by (cases su) (simp add: accumulate_user_def inner_fold_distinct)

lemma fold_accumulate_distinct:
  "distinct (map fst acc) \<Longrightarrow> distinct (map fst (fold (accumulate_user d rated ms) sims acc))"
  by (induction sims arbitrary: acc) (simp_all add: accumulate_user_distinct)

lemma map_of_accumulate_user:
  "map_of (accumulate_user d rated ms (v, sim) acc) k =
     (if sim < ms then map_of acc k
      else case getitem (get_user_ratings_dict d v) k of
        Some r \<Rightarrow> if k \<notin> set rated
                  then Some (fst (get_default acc k (0, 0)) + sim * r,
                             snd (get_default acc k (0, 0)) + 1)
                  else map_of acc k
      | None \<Rightarrow> map_of acc k)"
  by (simp add: accumulate_user_def inner_fold distinct_get_user_ratings_dict getitem_def)

lemma fold_accumulate:
  "map_of (fold (accumulate_user d rated ms) sims acc) k =
     (if k \<in> set rated \<or> contributions d ms sims k = [] then map_of acc k
      else Some (fst (get_default acc k (0, 0)) + sum_list (contributions d ms sims k),
                 snd (get_default acc k (0, 0)) + length (contributions d ms sims k)))"
proof (induction sims arbitrary: acc)
  case Nil
  then show ?case by (simp add: contributions_def)
next
  case (Cons su sims)
  obtain v sim where su: "su = (v, sim)" by (cases su)
  have c: "contributions d ms ((v, sim) # sims) k =
      (if sim < ms then []
       else case getitem (get_user_ratings_dict d v) k of None \<Rightarrow> [] | Some r \<Rightarrow> [sim * r])
      @ contributions d ms sims k"
    by (simp add: contributions_def)
  show ?case
    by (auto simp: c su Cons.IH map_of_accumulate_user get_default_map_of split: option.splits)
qed


lemma fetch_scored_SomeD:
  assumes "fetch_scored d (i, s, c) = Some y" and "r \<in> set y"
  shows "\<exists>it. objectid i = Some (oid it) \<and> find_one d (oid it) = Some it
        \<and> r = make_rec it s ''collaborative''"
proof -
  from assms obtain x where x: "objectid i = Some x"
    and y: "y = (case find_one d x of None \<Rightarrow> [] | Some it \<Rightarrow> [make_rec it s ''collaborative''])"
    by (auto simp: fetch_scored_def split: bind_splits)
  from y assms(2) obtain it where it: "find_one d x = Some it"
    and r: "r = make_rec it s ''collaborative''"
    by (cases "find_one d x") auto
  from it have "oid it = x" by (simp add: find_one_oid)
  with x it r show ?thesis by auto
qed


subsection \<open>The content recommender leaves out what the user has rated\<close>

text \<open>
  The content recommender compares ObjectIds: an item some rating of the user refers to,
  however the rating spells the identifier, is never returned.
\<close>

lemma mapM_Some_onD:
  "mapM f xs = Some ys \<Longrightarrow> x \<in> set xs \<Longrightarrow> \<exists>y\<in>set ys. f x = Some y"
  by (induction xs arbitrary: ys) (auto split: bind_splits)

lemma content_based_excludes_rated:
  assumes recs: "generate_content_based_recommendations d u limit ms = Some recs"
    and r: "r \<in> set recs"
    and rt: "rt \<in> set (ratings_of d u)"
  shows "objectid (item_id rt) \<noteq> Some (oid (doc r))"
proof -
  from recs r obtain fs where fs: "get_user_preferred_features d u 3 = Some fs" "fs \<noteq> []"
    by (auto simp: generate_content_based_recommendations_def split: bind_splits if_splits)
  let ?step = "\<lambda>ids it.
             if oid it \<in> set ids then Some []
             else do {
               similarity \<leftarrow> cosine_similarity_features fs (extract_item_features it);
               Some (if similarity \<ge> ms
                     then [make_rec it similarity ''content_based'']
                     else [])
             }"
  from recs fs obtain ids sims where
    ids: "mapM (\<lambda>r. objectid (item_id r)) (ratings_of d u) = Some ids"
    and sims: "mapM (?step ids) (items d) = Some sims"
    and recs_eq: "recs = take limit (sort_desc recommendation_score (concat sims))"
    by (auto simp: generate_content_based_recommendations_def split: bind_splits)
  from r recs_eq have "r \<in> set (concat sims)" by (auto dest: in_set_takeD)
  then obtain y where y: "y \<in> set sims" and ry: "r \<in> set y" by auto
  from mapM_SomeD[OF sims y] obtain it where step: "?step ids it = Some y" by blast
  from step ry have notin: "oid it \<notin> set ids" and doc: "doc r = it"
    by (auto simp: make_rec_def split: if_splits bind_splits)
  from mapM_Some_onD[OF ids rt] obtain x where "x \<in> set ids" "objectid (item_id rt) = Some x"
    by blast
  with notin doc show ?thesis by auto
qed


subsection \<open>Similar users and rating dicts\<close>

lemma mapM_total:
  "(\<And>x. x \<in> set xs \<Longrightarrow> \<exists>y. f x = Some y) \<Longrightarrow> \<exists>ys. mapM f xs = Some ys"
proof (induction xs)
  case Nil
  then show ?case by simp
next
  case (Cons x xs)
  then obtain y ys where "f x = Some y" "mapM f xs = Some ys" by (meson list.set_intros)
  then show ?case by simp
qed

lemma find_similar_users_total: "\<exists>sims. find_similar_users d u n m = Some sims"
proof (cases "get_user_ratings_dict d u = []")
  case True
  then show ?thesis by (simp add: find_similar_users_def)
next
  case False
  have "\<exists>ys. mapM (\<lambda>(other_user_id, other_ratings).
            if other_user_id = u then Some []
            else if length (common_keys (get_user_ratings_dict d u) other_ratings) < n
            then Some []
            else do {
              similarity \<leftarrow> pearson_correlation (get_user_ratings_dict d u) other_ratings;
              Some (if similarity > 0 then [(other_user_id, similarity)] else [])
            }) (get_all_users_ratings d) = Some ys"
    by (rule mapM_total) (auto simp: pearson_correlation_eq)
  then show ?thesis using False by (auto simp: find_similar_users_def Let_def)
qed

lemma find_similar_users_positive:
  assumes "find_similar_users d u n m = Some sims" and "(v, s) \<in> set sims"
  shows "0 < s"
proof -
  from assms have ne: "get_user_ratings_dict d u \<noteq> []"
    by (auto simp: find_similar_users_def)
  let ?f = "\<lambda>(other_user_id, other_ratings).
            if other_user_id = u then Some []
            else if length (common_keys (get_user_ratings_dict d u) other_ratings) < n
            then Some []
            else do {
              similarity \<leftarrow> pearson_correlation (get_user_ratings_dict d u) other_ratings;
              Some (if similarity > 0 then [(other_user_id, similarity)] else [])
            }"
  from assms(1) ne obtain found where
    found: "mapM ?f (get_all_users_ratings d) = Some found"
    and sims: "sims = take m (sort_desc snd (concat found))"
    by (auto simp: find_similar_users_def Let_def split: bind_splits)
  from assms(2) sims have "(v, s) \<in> set (concat found)" by (auto dest: in_set_takeD)
  then obtain y where y: "y \<in> set found" and vy: "(v, s) \<in> set y" by auto
  from mapM_SomeD[OF found y] obtain e where "?f e = Some y" by blast
  with vy show ?thesis
    by (cases e) (auto split: if_splits bind_splits)
qed

lemma in_set_updateD: "p \<in> set (AList.update k v al) \<Longrightarrow> p = (k, v) \<or> p \<in> set al"
  by (induction al) (auto split: if_splits)

lemma in_fold_updateD:
  "p \<in> set (fold (\<lambda>r a. AList.update (k r) (v r) a) rs acc) \<Longrightarrow>
   p \<in> set acc \<or> (\<exists>r\<in>set rs. p = (k r, v r))"
  by (induction rs arbitrary: acc) (auto dest!: in_set_updateD)

lemma get_user_ratings_dict_origin:
  "(i, x) \<in> set (get_user_ratings_dict d v) \<Longrightarrow>
   \<exists>r\<in>set (ratings d). item_id r = i \<and> x = real_of_int (rating r)"
  unfolding get_user_ratings_dict_def ratings_of_def
  by (auto dest!: in_fold_updateD)

lemma update_absent: "k \<notin> fst ` set al \<Longrightarrow> AList.update k v al = al @ [(k, v)]"
  by (induction al) auto



subsection \<open>The collaborative recommender on a store of the data model\<close>

lemma contributions_Cons:
  "contributions d ms ((v, sim) # sims) i =
      (if sim < ms then []
       else case getitem (get_user_ratings_dict d v) i of None \<Rightarrow> [] | Some r \<Rightarrow> [sim * r])
      @ contributions d ms sims i"
  by (simp add: contributions_def)

lemma contributions_origin:
  "x \<in> set (contributions d ms sims i) \<Longrightarrow>
   \<exists>v sim r. (v, sim) \<in> set sims \<and> getitem (get_user_ratings_dict d v) i = Some r
       \<and> x = sim * r"
proof (induction sims)
  case Nil
  then show ?case by (simp add: contributions_def)
next
  case (Cons su sims)
  obtain v sim where su: "su = (v, sim)" by (cases su)
  from Cons.prems have "x \<in> set (if sim < ms then []
       else case getitem (get_user_ratings_dict d v) i of None \<Rightarrow> [] | Some r \<Rightarrow> [sim * r])
     \<or> x \<in> set (contributions d ms sims i)"
    by (simp add: su contributions_Cons)
  then show ?case
  proof
    assume "x \<in> set (if sim < ms then []
       else case getitem (get_user_ratings_dict d v) i of None \<Rightarrow> [] | Some r \<Rightarrow> [sim * r])"
    then obtain r where "getitem (get_user_ratings_dict d v) i = Some r" "x = sim * r"
      by (cases "getitem (get_user_ratings_dict d v) i") (auto split: if_splits)
    then show ?thesis unfolding su by (intro exI[of _ v] exI[of _ sim] exI[of _ r]) simp
  next
    assume "x \<in> set (contributions d ms sims i)"
    from Cons.IH[OF this] show ?thesis by auto
  qed
qed

lemma valid_store_rating:
  "valid_store d \<Longrightarrow> r \<in> set (ratings d) \<Longrightarrow> 1 \<le> rating r \<and> rating r \<le> 5"
  by (simp add: valid_store_def list_all_iff)

lemma valid_store_oid:
  "valid_store d \<Longrightarrow> it \<in> set (items d) \<Longrightarrow> length (binary (oid it)) = 12"
  by (simp add: valid_store_def list_all_iff)

lemma str_oid_nonempty: "length (binary x) = 12 \<Longrightarrow> str_oid x \<noteq> []"
  by (cases "binary x") (simp_all add: str_oid_def)

lemma sum_list_pos_real: "xs \<noteq> [] \<Longrightarrow> (\<And>x. x \<in> set xs \<Longrightarrow> 0 < (x::real)) \<Longrightarrow> 0 < sum_list xs"
proof (induction xs)
  case Nil
  then show ?case by simp
next
  case (Cons x xs)
  have "0 < x" using Cons.prems by simp
  moreover have "0 \<le> sum_list xs"
  proof (cases "xs = []")
    case True
    then show ?thesis by simp
  next
    case False
    then have "0 < sum_list xs" using Cons by simp
    then show ?thesis by simp
  qed
  ultimately show ?case by simp
qed

lemma item_scores_facts:
  assumes vs: "valid_store d"
    and su: "find_similar_users d u n m = Some sims"
    and e: "(i, s, c) \<in> set (fold (accumulate_user d rated ms) sims [])"
  shows "0 < c \<and> 0 < s"
proof -
  have "distinct (map fst (fold (accumulate_user d rated ms) sims []))"
    by (rule fold_accumulate_distinct) simp
  with e have "map_of (fold (accumulate_user d rated ms) sims []) i = Some (s, c)"
    by simp
  then have ne: "contributions d ms sims i \<noteq> []"
    and s: "s = sum_list (contributions d ms sims i)"
    and c: "c = length (contributions d ms sims i)"
    by (auto simp: fold_accumulate get_default_def split: if_splits)
  have pos: "\<And>x. x \<in> set (contributions d ms sims i) \<Longrightarrow> 0 < x"
  proof -
    fix x assume "x \<in> set (contributions d ms sims i)"
    then obtain v sim r where vs': "(v, sim) \<in> set sims"
      and g: "getitem (get_user_ratings_dict d v) i = Some r" and x: "x = sim * r"
      using contributions_origin by blast
    from g have "(i, r) \<in> set (get_user_ratings_dict d v)"
      by (simp add: getitem_def map_of_SomeD)
    then obtain rt where "rt \<in> set (ratings d)" "r = real_of_int (rating rt)"
      using get_user_ratings_dict_origin by blast
    then have "0 < r" using valid_store_rating[OF vs, of rt] by simp
    moreover have "0 < sim" using find_similar_users_positive[OF su vs'] .
    ultimately show "0 < x" using x by simp
  qed
  have "0 < c" using ne c by simp
  moreover have "0 < s" unfolding s using ne by (rule sum_list_pos_real) (rule pos)
  ultimately show ?thesis by simp
qed

lemma collaborative_candidates:
  assumes vs: "valid_store d"
  shows "\<exists>cands :: (string \<times> real \<times> nat) list.
          (\<forall>x\<in>set cands. 0 < fst (snd x))
          \<and> sorted (map (\<lambda>x. - fst (snd x)) cands)
          \<and> (\<forall>L. generate_collaborative_recommendations d u L ms
                 = map_option concat (mapM (fetch_scored d) (take L cands)))"
proof -
  obtain sims where su: "find_similar_users d u 3 50 = Some sims"
    using find_similar_users_total by blast
  show ?thesis
  proof (cases "sims = []")
    case True
    have "\<And>L. generate_collaborative_recommendations d u L ms = Some []"
      by (simp add: generate_collaborative_recommendations_def su True)
    then show ?thesis by (intro exI[of _ "[]"]) simp
  next
    case False
    define rated where "rated = keys (get_user_ratings_dict d u)"
    define item_scores where "item_scores = fold (accumulate_user d rated ms) sims []"
    define avg where "avg = (\<lambda>e :: string \<times> real \<times> nat.
        (fst e, fst (snd e) / real (snd (snd e)), snd (snd e)))"
    define cands where "cands = sort_desc (\<lambda>(i, s, c). s) (map avg item_scores)"
    have facts: "\<And>i s c. (i, s, c) \<in> set item_scores \<Longrightarrow> 0 < c \<and> 0 < s"
      unfolding item_scores_def using item_scores_facts[OF vs su] by blast
    have scored: "mapM (\<lambda>(i, s, c).
              if c > 0 then do { avg_score \<leftarrow> pydiv s (real c); Some [(i, avg_score, c)] }
              else Some []) item_scores = Some (map (\<lambda>e. [avg e]) item_scores)"
    proof (rule mapM_Some)
      fix e assume e: "e \<in> set item_scores"
      obtain i s c where e_eq: "e = (i, s, c)" by (cases e) auto
      from facts e have "0 < c" unfolding e_eq by blast
      then show "(case e of (i, s, c) \<Rightarrow>
              if c > 0 then do { avg_score \<leftarrow> pydiv s (real c); Some [(i, avg_score, c)] }
              else Some []) = Some [avg e]"
        by (simp add: e_eq pydiv_def avg_def)
    qed
    have conc: "concat (map (\<lambda>e. [avg e]) item_scores) = map avg item_scores"
      by (induction item_scores) auto
    have set_cands: "set cands = avg ` set item_scores"
      by (simp add: cands_def)
    have d2: "\<forall>x\<in>set cands. 0 < fst (snd x)"
    proof
      fix x assume "x \<in> set cands"
      then obtain i s c where e: "(i, s, c) \<in> set item_scores" and x: "x = avg (i, s, c)"
        unfolding set_cands by auto
      from facts[OF e] show "0 < fst (snd x)"
        by (simp add: x avg_def)
    qed
    have d3: "sorted (map (\<lambda>x. - fst (snd x)) cands)"
    proof -
      have "(\<lambda>x :: string \<times> real \<times> nat. - fst (snd x)) = (\<lambda>x. - (case x of (i, s, c) \<Rightarrow> s))"
        by (simp add: fun_eq_iff split_beta)
      then show ?thesis
        unfolding cands_def sort_desc_def by (simp add: sorted_sort_key)
    qed
    have d4: "generate_collaborative_recommendations d u L ms
                 = map_option concat (mapM (fetch_scored d) (take L cands))" for L
      using False
      by (cases "mapM (fetch_scored d) (take L cands)")
         (simp_all add: generate_collaborative_recommendations_def su Let_def scored conc
            rated_def[symmetric] item_scores_def[symmetric] cands_def[symmetric])
    show ?thesis
      by (rule exI[of _ cands]) (intro conjI allI d2 d3 d4)
  qed
qed

lemma mapM_append:
  "mapM f (xs @ zs) = Some ys \<Longrightarrow>
   \<exists>a b. mapM f xs = Some a \<and> mapM f zs = Some b \<and> ys = a @ b"
  by (induction xs arbitrary: ys) (auto split: bind_splits)

lemma fetched_records:
  assumes "mapM (fetch_scored d) xs = Some ys"
  shows "length (concat ys) \<le> length xs
       \<and> recommendation_score ` set (concat ys) \<subseteq> (\<lambda>x. fst (snd x)) ` set xs
       \<and> (\<forall>r\<in>set (concat ys). normalized_score r = None
              \<and> (\<exists>it\<in>set (items d). rec_id r = str_oid (oid it)))
       \<and> (sorted (map (\<lambda>x. - fst (snd x)) xs)
            \<longrightarrow> sorted (map (\<lambda>r. - recommendation_score r) (concat ys)))"
  using assms
proof (induction xs arbitrary: ys)
  case Nil
  then show ?case by simp
next
  case (Cons x xs)
  from Cons.prems obtain y ys' where y: "fetch_scored d x = Some y"
    and ys': "mapM (fetch_scored d) xs = Some ys'" and ys: "ys = y # ys'"
    by (auto split: bind_splits)
  note IH = Cons.IH[OF ys']
  obtain i s c where x: "x = (i, s, c)" by (cases x) auto
  have shape: "y = [] \<or> (\<exists>it\<in>set (items d). y = [make_rec it s ''collaborative''])"
  proof (cases "y = []")
    case True
    then show ?thesis by simp
  next
    case False
    then obtain r where "r \<in> set y" by (cases y) auto
    from y x False show ?thesis
      by (auto simp: fetch_scored_def find_one_oid split: bind_splits option.splits)
  qed
  then show ?case
  proof
    assume "y = []"
    then show ?thesis using IH by (auto simp: ys)
  next
    assume "\<exists>it\<in>set (items d). y = [make_rec it s ''collaborative'']"
    then obtain it where it: "it \<in> set (items d)" and yy: "y = [make_rec it s ''collaborative'']"
      by blast
    have a: "length (concat ys) \<le> length (x # xs)" using IH by (simp add: ys yy)
    have b: "recommendation_score ` set (concat ys) \<subseteq> (\<lambda>x. fst (snd x)) ` set (x # xs)"
      using IH by (auto simp: ys yy x make_rec_def)
    have c: "\<forall>r\<in>set (concat ys). normalized_score r = None
              \<and> (\<exists>it\<in>set (items d). rec_id r = str_oid (oid it))"
      using IH it by (auto simp: ys yy make_rec_def)
    have e: "sorted (map (\<lambda>x. - fst (snd x)) (x # xs))
            \<longrightarrow> sorted (map (\<lambda>r. - recommendation_score r) (concat ys))"
    proof
      assume srt: "sorted (map (\<lambda>x. - fst (snd x)) (x # xs))"
      then have tl: "sorted (map (\<lambda>r. - recommendation_score r) (concat ys'))"
        using IH by simp
      have "\<forall>r\<in>set (concat ys'). - s \<le> - recommendation_score r"
      proof
        fix r assume "r \<in> set (concat ys')"
        then have "recommendation_score r \<in> (\<lambda>x. fst (snd x)) ` set xs"
          using IH by blast
        then show "- s \<le> - recommendation_score r" using srt by (auto simp: x)
      qed
      then show "sorted (map (\<lambda>r. - recommendation_score r) (concat ys))"
        using tl by (simp add: ys yy make_rec_def)
    qed
    show ?thesis using a b c e by blast
  qed
qed

lemma content_records:
  assumes recs: "generate_content_based_recommendations d u limit ms = Some recs"
    and r: "r \<in> set recs"
  shows "\<exists>it\<in>set (items d). rec_id r = str_oid (oid it)"
proof -
  from recs r obtain fs where fs: "get_user_preferred_features d u 3 = Some fs" "fs \<noteq> []"
    by (auto simp: generate_content_based_recommendations_def split: bind_splits if_splits)
  let ?step = "\<lambda>ids it.
             if oid it \<in> set ids then Some []
             else do {
               similarity \<leftarrow> cosine_similarity_features fs (extract_item_features it);
               Some (if similarity \<ge> ms
                     then [make_rec it similarity ''content_based'']
                     else [])
             }"
  from recs fs obtain ids sims where
    sims: "mapM (?step ids) (items d) = Some sims"
    and recs_eq: "recs = take limit (sort_desc recommendation_score (concat sims))"
    by (auto simp: generate_content_based_recommendations_def split: bind_splits)
  from r recs_eq have "r \<in> set (concat sims)" by (auto dest: in_set_takeD)
  then obtain y where y: "y \<in> set sims" and ry: "r \<in> set y" by auto
  from mapM_SomeD[OF sims y] obtain it where it: "it \<in> set (items d)"
    and step: "?step ids it = Some y" by blast
  from step ry have "rec_id r = str_oid (oid it)"
    by (auto simp: make_rec_def split: if_splits bind_splits)
  with it show ?thesis by blast
qed


subsection \<open>Normalising, merging and blending\<close>

lemma fold_max_top: "\<forall>y\<in>set xs. y \<le> (x::real) \<Longrightarrow> fold max xs x = x"
  by (induction xs) (auto simp: max_def)

lemma pymax_sorted:
  assumes "recs \<noteq> []" and "sorted (map (\<lambda>r. - recommendation_score r) recs)"
  shows "pymax (map recommendation_score recs) = Some (recommendation_score (hd recs))"
proof -
  from assms(1) obtain r0 rest where recs: "recs = r0 # rest" by (cases recs) auto
  have "\<forall>y\<in>set (map recommendation_score rest). y \<le> recommendation_score r0"
    using assms(2) by (auto simp: recs)
  then show ?thesis by (simp add: recs fold_max_top)
qed

lemma normalize_sorted:
  assumes pos: "\<forall>r\<in>set recs. 0 < recommendation_score r"
    and sorted: "sorted (map (\<lambda>r. - recommendation_score r) recs)"
  shows "normalize_scores recs =
           Some (map (\<lambda>r. r\<lparr>normalized_score :=
                               Some (recommendation_score r / recommendation_score (hd recs))\<rparr>)
                   recs)"
proof (cases "recs = []")
  case True
  then show ?thesis by (simp add: normalize_scores_def)
next
  case False
  define m where "m = recommendation_score (hd recs)"
  have pm: "pymax (map recommendation_score recs) = Some m"
    unfolding m_def by (rule pymax_sorted[OF False sorted])
  have "hd recs \<in> set recs" using False by simp
  then have m0: "m \<noteq> 0" using pos unfolding m_def by fastforce
  have step: "mapM (\<lambda>r. do {
               q \<leftarrow> pydiv (recommendation_score r) m;
               Some (r\<lparr>normalized_score := Some q\<rparr>)
             }) recs = Some (map (\<lambda>r. r\<lparr>normalized_score := Some (recommendation_score r / m)\<rparr>) recs)"
    by (rule mapM_Some) (simp add: pydiv_def m0)
  show ?thesis
    by (simp add: normalize_scores_def pm False m0 step m_def[symmetric])
qed

lemma normalize_total:
  "\<exists>normed. normalize_scores recs = Some normed \<and> map rec_id normed = map rec_id recs"
proof (cases recs)
  case Nil
  then show ?thesis by (simp add: normalize_scores_def)
next
  case (Cons r0 rest)
  define m where "m = fold max (map recommendation_score rest) (recommendation_score r0)"
  have pm: "pymax (map recommendation_score recs) = Some m"
    by (simp add: Cons m_def)
  have ne: "recs \<noteq> []" by (simp add: Cons)
  show ?thesis
  proof (cases "m = 0")
    case True
    then show ?thesis by (simp add: normalize_scores_def pm ne)
  next
    case False
    have step: "mapM (\<lambda>r. do {
               q \<leftarrow> pydiv (recommendation_score r) m;
               Some (r\<lparr>normalized_score := Some q\<rparr>)
             }) recs = Some (map (\<lambda>r. r\<lparr>normalized_score := Some (recommendation_score r / m)\<rparr>) recs)"
      by (rule mapM_Some) (simp add: pydiv_def False)
    show ?thesis
      by (simp add: normalize_scores_def pm ne False step comp_def)
  qed
qed

lemma merge_collaborative_shape:
  "distinct (map rec_id recs) \<Longrightarrow> \<forall>r\<in>set recs. rec_id r \<noteq> [] \<and> rec_id r \<notin> fst ` set acc \<Longrightarrow>
   fold merge_collaborative recs acc = acc @ map entry_of recs"
proof (induction recs arbitrary: acc)
  case Nil
  then show ?case by simp
next
  case (Cons r recs)
  have absent: "rec_id r \<notin> fst ` set acc" and ne: "rec_id r \<noteq> []" using Cons.prems by simp_all
  then have none: "map_of acc (rec_id r) = None" by (simp add: map_of_eq_None_iff)
  have one: "merge_collaborative r acc = acc @ [entry_of r]"
    using ne by (simp add: merge_collaborative_def get_default_def none default_entry_def
        update_absent[OF absent] entry_of_def nz_def)
  have "fold merge_collaborative recs (acc @ [entry_of r]) = (acc @ [entry_of r]) @ map entry_of recs"
  proof (rule Cons.IH)
    show "distinct (map rec_id recs)" using Cons.prems by simp
    show "\<forall>x\<in>set recs. rec_id x \<noteq> [] \<and> rec_id x \<notin> fst ` set (acc @ [entry_of r])"
    proof
      fix x assume x: "x \<in> set recs"
      from Cons.prems(1) have "rec_id r \<notin> rec_id ` set recs" by simp
      with x have "rec_id x \<noteq> rec_id r" by (metis imageI)
      moreover from Cons.prems(2) x have "rec_id x \<noteq> []" "rec_id x \<notin> fst ` set acc" by simp_all
      ultimately show "rec_id x \<noteq> [] \<and> rec_id x \<notin> fst ` set (acc @ [entry_of r])"
        by (simp add: entry_of_def)
    qed
  qed
  then show ?case by (simp add: one)
qed


lemma merge_content_shape:
  "distinct (map rec_id recs) \<Longrightarrow> \<forall>r\<in>set recs. rec_id r \<noteq> [] \<and> rec_id r \<notin> fst ` set acc \<Longrightarrow>
   fold merge_content recs acc = acc @ map centry_of recs"
proof (induction recs arbitrary: acc)
  case Nil
  then show ?case by simp
next
  case (Cons r recs)
  have absent: "rec_id r \<notin> fst ` set acc" and ne: "rec_id r \<noteq> []" using Cons.prems by simp_all
  then have none: "map_of acc (rec_id r) = None" by (simp add: map_of_eq_None_iff)
  have one: "merge_content r acc = acc @ [centry_of r]"
    using ne by (simp add: merge_content_def get_default_def none default_entry_def
        update_absent[OF absent] centry_of_def nz_def)
  have "fold merge_content recs (acc @ [centry_of r]) = (acc @ [centry_of r]) @ map centry_of recs"
  proof (rule Cons.IH)
    show "distinct (map rec_id recs)" using Cons.prems by simp
    show "\<forall>x\<in>set recs. rec_id x \<noteq> [] \<and> rec_id x \<notin> fst ` set (acc @ [centry_of r])"
    proof
      fix x assume x: "x \<in> set recs"
      from Cons.prems(1) have "rec_id r \<notin> rec_id ` set recs" by simp
      with x have "rec_id x \<noteq> rec_id r" by (metis imageI)
      moreover from Cons.prems(2) x have "rec_id x \<noteq> []" "rec_id x \<notin> fst ` set acc" by simp_all
      ultimately show "rec_id x \<noteq> [] \<and> rec_id x \<notin> fst ` set (acc @ [centry_of r])"
        by (simp add: centry_of_def)
    qed
  qed
  then show ?case by (simp add: one)
qed

lemma blend_entry:
  "blend 1 0 (entry_of r) =
     [r\<lparr>recommendation_score := nz r, recommendation_type := ''hybrid'',
        collaborative_score := Some (nz r), content_score := Some 0\<rparr>]"
  by (simp add: blend_def entry_of_def)

lemma blend_centry:
  "blend 1 0 (centry_of r) =
     [r\<lparr>recommendation_score := 0, recommendation_type := ''hybrid'',
        collaborative_score := Some 0, content_score := Some (nz r)\<rparr>]"
  by (simp add: blend_def centry_of_def)


subsection \<open>Identifiers of the concrete stores\<close>

lemma hex_val_simps:
  "hex_val CHR ''0'' = Some 0" "hex_val CHR ''1'' = Some 1" "hex_val CHR ''2'' = Some 2"
  "hex_val CHR ''3'' = Some 3" "hex_val CHR ''4'' = Some 4" "hex_val CHR ''5'' = Some 5"
  "hex_val CHR ''6'' = Some 6" "hex_val CHR ''7'' = Some 7"
  "hex_val CHR ''d'' = Some 13" "hex_val CHR ''D'' = Some 13"
  by (simp_all add: hex_val_def)

lemma objectid_mk_id:
  "objectid (mk_id CHR ''1'') = Some (mk_oid 1)"
  "objectid (mk_id CHR ''2'') = Some (mk_oid 2)"
  "objectid (mk_id CHR ''3'') = Some (mk_oid 3)"
  "objectid (mk_id CHR ''4'') = Some (mk_oid 4)"
  "objectid (mk_id CHR ''5'') = Some (mk_oid 5)"
  "objectid (mk_id CHR ''6'') = Some (mk_oid 6)"
  "objectid (mk_id CHR ''7'') = Some (mk_oid 7)"
  "objectid (mk_id CHR ''d'') = Some (mk_oid 13)"
  "objectid (mk_id CHR ''D'') = Some (mk_oid 13)"
  by (simp_all add: objectid_def mk_id_def mk_oid_def hex_val_simps isspace_def)

lemma str_oid_mk_oid:
  "str_oid (mk_oid 1) = mk_id CHR ''1''"
  "str_oid (mk_oid (Suc 0)) = mk_id CHR ''1''"
  "str_oid (mk_oid 2) = mk_id CHR ''2''"
  "str_oid (mk_oid 3) = mk_id CHR ''3''"
  "str_oid (mk_oid 4) = mk_id CHR ''4''"
  "str_oid (mk_oid 5) = mk_id CHR ''5''"
  "str_oid (mk_oid 6) = mk_id CHR ''6''"
  "str_oid (mk_oid 7) = mk_id CHR ''7''"
  "str_oid (mk_oid 13) = mk_id CHR ''d''"
  by (simp_all add: str_oid_def mk_id_def mk_oid_def hexdigit_def)

lemma mk_id_eq: "(mk_id c = mk_id c') = (c = c')"
  by (simp add: mk_id_def)

lemma mk_oid_eq: "(mk_oid m = mk_oid n) = (m = n)"
  by (simp add: mk_oid_def)


subsection \<open>Evaluation on the concrete stores\<close>

lemma scenario_urd:
  "get_user_ratings_dict scenario_db ''A'' = [(mk_id CHR ''1'', 5), (mk_id CHR ''2'', 4)]"
  "get_user_ratings_dict scenario_db ''B'' =
     [(mk_id CHR ''1'', 5), (mk_id CHR ''2'', 4), (mk_id CHR ''3'', 5)]"
  by (simp_all add: scenario_db_def get_user_ratings_dict_def ratings_of_def rate_def mk_id_eq)

lemma scenario_all: "get_all_users_ratings scenario_db =
   [(''A'', [(mk_id CHR ''1'', 5), (mk_id CHR ''2'', 4)]),
    (''B'', [(mk_id CHR ''1'', 5), (mk_id CHR ''2'', 4), (mk_id CHR ''3'', 5)])]"
  by (simp add: scenario_db_def get_all_users_ratings_def rate_def get_default_def mk_id_eq)

lemma scenario_pearson:
  "pearson_correlation [(mk_id CHR ''1'', 5), (mk_id CHR ''2'', 4)]
     [(mk_id CHR ''1'', 5), (mk_id CHR ''2'', 4), (mk_id CHR ''3'', 5)] = Some 1"
  by (simp add: pearson_correlation_def common_keys_def keys_def getitem_def pydiv_def
      pysqrt_def power2_eq_square real_sqrt_divide mk_id_eq)

lemma scenario_fsu3: "find_similar_users scenario_db ''A'' 3 n = Some []"
  by (simp add: find_similar_users_def scenario_urd scenario_all common_keys_def keys_def
      sort_desc_def mk_id_eq)

lemma scenario_fsu2: "find_similar_users scenario_db ''A'' 2 10 = Some [(''B'', 1)]"
  by (simp add: find_similar_users_def scenario_urd scenario_all common_keys_def keys_def
      sort_desc_def scenario_pearson mk_id_eq)

lemma scenario_gcr:
  "generate_collaborative_recommendations scenario_db ''A'' 10 (3 / 10) = Some []"
  by (simp add: generate_collaborative_recommendations_def scenario_fsu3)

lemma s3_urd:
  "get_user_ratings_dict scenario_db3 ''A'' =
     [(mk_id CHR ''1'', 5), (mk_id CHR ''2'', 4), (mk_id CHR ''4'', 3)]"
  "get_user_ratings_dict scenario_db3 ''B'' =
     [(mk_id CHR ''1'', 5), (mk_id CHR ''2'', 4), (mk_id CHR ''3'', 5), (mk_id CHR ''4'', 3)]"
  by (simp_all add: scenario_db3_def get_user_ratings_dict_def ratings_of_def rate_def mk_id_eq)

lemma s3_all: "get_all_users_ratings scenario_db3 =
   [(''A'', [(mk_id CHR ''1'', 5), (mk_id CHR ''2'', 4), (mk_id CHR ''4'', 3)]),
    (''B'', [(mk_id CHR ''1'', 5), (mk_id CHR ''2'', 4), (mk_id CHR ''3'', 5), (mk_id CHR ''4'', 3)])]"
  by (simp add: scenario_db3_def get_all_users_ratings_def rate_def get_default_def mk_id_eq)

lemma s3_pearson: "pearson_correlation [(mk_id CHR ''1'', 5), (mk_id CHR ''2'', 4), (mk_id CHR ''4'', 3)]
    [(mk_id CHR ''1'', 5), (mk_id CHR ''2'', 4), (mk_id CHR ''3'', 5), (mk_id CHR ''4'', 3)] = Some 1"
  by (simp add: pearson_correlation_def common_keys_def keys_def getitem_def pydiv_def
      pysqrt_def mk_id_eq)

lemma s3_fsu: "find_similar_users scenario_db3 ''A'' 3 n = Some (take n [(''B'', 1)])"
  by (simp add: find_similar_users_def s3_urd s3_all s3_pearson common_keys_def keys_def
      sort_desc_def mk_id_eq)

lemma s3_find_one: "find_one scenario_db3 (mk_oid 3) = Some (plain_item 3 ''movie'' [])"
  by (simp add: scenario_db3_def find_one_def plain_item_def mk_oid_eq)

lemma s3_gcr: "generate_collaborative_recommendations scenario_db3 ''A'' 10 (3 / 10)
   = Some [make_rec (plain_item 3 ''movie'' []) 5 ''collaborative'']"
  by (simp add: generate_collaborative_recommendations_def s3_fsu s3_urd s3_find_one
      mk_id_eq objectid_mk_id get_default_def keys_def sort_desc_def pydiv_def
      accumulate_user_def add_score_def fetch_scored_def)

lemma rated_urd: "get_user_ratings_dict rated_db ''A'' = []" "ratings_of rated_db ''A'' = []"
  by (simp_all add: rated_db_def get_user_ratings_dict_def ratings_of_def rate_def)

lemma rated_collab: "generate_collaborative_recommendations rated_db ''A'' limit ms = Some []"
  by (simp add: generate_collaborative_recommendations_def find_similar_users_def rated_urd)

lemma rated_content: "generate_content_based_recommendations rated_db ''A'' limit ms = Some []"
  by (simp add: generate_content_based_recommendations_def get_user_preferred_features_def
      rated_urd)

lemma rated_hybrid: "generate_hybrid_recommendations rated_db ''A'' limit cw tw ms = Some []"
  by (simp add: generate_hybrid_recommendations_def rated_collab rated_content
      normalize_scores_def sort_desc_def)

lemma case_urd:
  "get_user_ratings_dict case_db ''A'' =
     [(mk_id CHR ''1'', 5), (mk_id CHR ''2'', 4), (mk_id CHR ''3'', 3), (mk_id CHR ''d'', 5)]"
  "get_user_ratings_dict case_db ''B'' =
     [(mk_id CHR ''1'', 5), (mk_id CHR ''2'', 4), (mk_id CHR ''3'', 3), (mk_id CHR ''D'', 5)]"
  by (simp_all add: case_db_def get_user_ratings_dict_def ratings_of_def rate_def mk_id_eq)

lemma case_all: "get_all_users_ratings case_db =
   [(''A'', [(mk_id CHR ''1'', 5), (mk_id CHR ''2'', 4), (mk_id CHR ''3'', 3),
             (mk_id CHR ''d'', 5)]),
    (''B'', [(mk_id CHR ''1'', 5), (mk_id CHR ''2'', 4), (mk_id CHR ''3'', 3),
             (mk_id CHR ''D'', 5)])]"
  by (simp add: case_db_def get_all_users_ratings_def rate_def get_default_def mk_id_eq)

lemma case_pearson:
  "pearson_correlation
     [(mk_id CHR ''1'', 5), (mk_id CHR ''2'', 4), (mk_id CHR ''3'', 3), (mk_id CHR ''d'', 5)]
     [(mk_id CHR ''1'', 5), (mk_id CHR ''2'', 4), (mk_id CHR ''3'', 3), (mk_id CHR ''D'', 5)]
   = Some 1"
  by (simp add: pearson_correlation_def common_keys_def keys_def getitem_def pydiv_def
      pysqrt_def mk_id_eq)

lemma case_fsu: "find_similar_users case_db ''A'' 3 50 = Some [(''B'', 1)]"
  by (simp add: find_similar_users_def case_urd case_all case_pearson common_keys_def keys_def
      sort_desc_def mk_id_eq)

lemma case_find_one: "find_one case_db (mk_oid 13) = Some (plain_item 13 ''movie'' [])"
  by (simp add: case_db_def find_one_def plain_item_def mk_oid_eq)

lemma scenario_find_one: "find_one scenario_db (mk_oid 2) = Some (plain_item 2 ''movie'' [])"
  by (simp add: scenario_db_def find_one_def plain_item_def mk_oid_eq)

lemma movie_cosine:
  "cosine_similarity_features [(''type:movie'', 1)] [(''type:movie'', 1)] = Some 1"
  by (simp add: cosine_similarity_features_def union_keys_def keys_def get_default_def
      pysqrt_def pydiv_def)

lemma plain_features: "extract_item_features (plain_item n ''movie'' []) = [(''type:movie'', 1)]"
  by (simp add: extract_item_features_def plain_item_def scalar_feature_def)

lemma scenario_similar:
  "find_similar_items scenario_db (mk_id CHR ''2'') 10 (3 / 10) =
     Some [(make_rec (plain_item 1 ''movie'' []) 1 ''content_based'')\<lparr>similarity_score := Some 1\<rparr>,
           (make_rec (plain_item 3 ''movie'' []) 1 ''content_based'')\<lparr>similarity_score := Some 1\<rparr>]"
proof -
  have v: "is_valid (mk_id CHR ''2'')"
    by (simp add: is_valid_def objectid_mk_id) (simp add: mk_id_def)
  have others: "filter (\<lambda>other. item_type other = item_type (plain_item 2 ''movie'' [])
                  \<and> oid other \<noteq> mk_oid 2) (items scenario_db)
       = [plain_item 1 ''movie'' [], plain_item 3 ''movie'' []]"
    by (simp add: scenario_db_def plain_item_def mk_oid_eq)
  show ?thesis
    by (simp add: find_similar_items_def v objectid_mk_id scenario_find_one others
        plain_features movie_cosine sort_desc_def make_rec_def)
qed


lemma s3_contrib:
  "contributions scenario_db3 (3 / 10) [(''B'', 1)] (mk_id CHR ''3'') = [5]"
  by (simp add: contributions_def s3_urd getitem_def mk_id_eq)


lemma cn_ratings_A: "ratings_of content_only_db ''A'' = [rate ''A'' (mk_id CHR ''2'') 5]"
  by (simp add: ratings_of_def content_only_db_def rate_def)

lemma cn_urd: "get_user_ratings_dict content_only_db ''A'' = [(mk_id CHR ''2'', 5)]"
  by (simp add: get_user_ratings_dict_def cn_ratings_A rate_def)

lemma cn_all: "get_all_users_ratings content_only_db = [(''A'', [(mk_id CHR ''2'', 5)])]"
  by (simp add: get_all_users_ratings_def content_only_db_def rate_def get_default_def)

lemma cn_collab: "generate_collaborative_recommendations content_only_db ''A'' n ms = Some []"
  by (simp add: generate_collaborative_recommendations_def find_similar_users_def
      cn_urd cn_all sort_desc_def)

lemma action_features:
  "extract_item_features (plain_item n ''movie'' [''action''])
     = [(''genre:action'', 1), (''type:movie'', 1)]"
  by (simp add: extract_item_features_def plain_item_def scalar_feature_def)

lemma oid_plain_item: "oid (plain_item n ty gs) = mk_oid n"
  by (simp add: plain_item_def)

lemma cn_items: "items content_only_db
      = [plain_item 2 ''movie'' [''action''], plain_item 3 ''movie'' [''action'']]"
  by (simp add: content_only_db_def)

lemma cn_profile: "get_user_preferred_features content_only_db ''A'' 3
    = Some [(''genre:action'', 1), (''type:movie'', 1)]"
  by (simp add: get_user_preferred_features_def cn_ratings_A rate_def objectid_mk_id cn_items
      oid_plain_item mk_oid_eq action_features counter_add_def get_default_def pydiv_def)

lemma action_cosine:
  "cosine_similarity_features [(''genre:action'', 1), (''type:movie'', 1)]
     [(''genre:action'', 1), (''type:movie'', 1)] = Some 1"
  by (simp add: cosine_similarity_features_def union_keys_def keys_def get_default_def
      pysqrt_def pydiv_def)

lemma cn_content: "generate_content_based_recommendations content_only_db ''A'' 20 (3 / 10)
   = Some [make_rec (plain_item 3 ''movie'' [''action'']) 1 ''content_based'']"
  by (simp add: generate_content_based_recommendations_def cn_profile cn_ratings_A rate_def
      objectid_mk_id cn_items oid_plain_item mk_oid_eq action_features action_cosine
      sort_desc_def)

lemma mk_id_nonempty: "mk_id c \<noteq> []"
  by (simp add: mk_id_def)

lemma cn_hybrid:
  "map_option (map rec_id)
     (generate_hybrid_recommendations content_only_db ''A'' 10 1 0 (3 / 10))
   = Some [mk_id CHR ''3'']"
  by (simp add: generate_hybrid_recommendations_def cn_collab cn_content normalize_scores_def
      pydiv_def make_rec_def merge_content_def get_default_def default_entry_def blend_def
      sort_desc_def oid_plain_item str_oid_mk_oid mk_id_nonempty)
lemma mx_ratings_A: "ratings_of mixed_db ''A'' =
    [rate ''A'' (mk_id CHR ''2'') 5, rate ''A'' (mk_id CHR ''3'') 4, rate ''A'' (mk_id CHR ''4'') 3]"
  by (simp add: ratings_of_def mixed_db_def rate_def)

lemma mx_urd:
  "get_user_ratings_dict mixed_db ''A'' =
     [(mk_id CHR ''2'', 5), (mk_id CHR ''3'', 4), (mk_id CHR ''4'', 3)]"
  "get_user_ratings_dict mixed_db ''B'' =
     [(mk_id CHR ''2'', 5), (mk_id CHR ''3'', 4), (mk_id CHR ''4'', 3), (mk_id CHR ''5'', 4),
      (mk_id CHR ''6'', 5)]"
  by (simp_all add: mixed_db_def get_user_ratings_dict_def ratings_of_def rate_def mk_id_eq)

lemma mx_all: "get_all_users_ratings mixed_db =
   [(''A'', [(mk_id CHR ''2'', 5), (mk_id CHR ''3'', 4), (mk_id CHR ''4'', 3)]),
    (''B'', [(mk_id CHR ''2'', 5), (mk_id CHR ''3'', 4), (mk_id CHR ''4'', 3),
             (mk_id CHR ''5'', 4), (mk_id CHR ''6'', 5)])]"
  by (simp add: mixed_db_def get_all_users_ratings_def rate_def get_default_def mk_id_eq)

lemma mx_pearson:
  "pearson_correlation [(mk_id CHR ''2'', 5), (mk_id CHR ''3'', 4), (mk_id CHR ''4'', 3)]
     [(mk_id CHR ''2'', 5), (mk_id CHR ''3'', 4), (mk_id CHR ''4'', 3), (mk_id CHR ''5'', 4),
      (mk_id CHR ''6'', 5)] = Some 1"
  by (simp add: pearson_correlation_def common_keys_def keys_def getitem_def pydiv_def
      pysqrt_def mk_id_eq)

lemma mx_fsu: "find_similar_users mixed_db ''A'' 3 50 = Some [(''B'', 1)]"
  by (simp add: find_similar_users_def mx_urd mx_all mx_pearson common_keys_def keys_def
      sort_desc_def mk_id_eq)

lemma mx_find_one:
  "find_one mixed_db (mk_oid 5) = Some (plain_item 5 ''book'' [])"
  "find_one mixed_db (mk_oid 6) = Some (plain_item 6 ''book'' [])"
  by (simp_all add: mixed_db_def find_one_def plain_item_def mk_oid_eq)

lemma mx_collab:
  "generate_collaborative_recommendations mixed_db ''A'' 20 (3 / 10)
   = Some [make_rec (plain_item 6 ''book'' []) 5 ''collaborative'',
           make_rec (plain_item 5 ''book'' []) 4 ''collaborative'']"
  "generate_collaborative_recommendations mixed_db ''A'' 10 (3 / 10)
   = Some [make_rec (plain_item 6 ''book'' []) 5 ''collaborative'',
           make_rec (plain_item 5 ''book'' []) 4 ''collaborative'']"
  "generate_collaborative_recommendations mixed_db ''A'' 4 (3 / 10)
   = Some [make_rec (plain_item 6 ''book'' []) 5 ''collaborative'',
           make_rec (plain_item 5 ''book'' []) 4 ''collaborative'']"
  "generate_collaborative_recommendations mixed_db ''A'' 2 (3 / 10)
   = Some [make_rec (plain_item 6 ''book'' []) 5 ''collaborative'',
           make_rec (plain_item 5 ''book'' []) 4 ''collaborative'']"
  by (simp_all add: generate_collaborative_recommendations_def mx_fsu mx_urd mx_find_one
      mk_id_eq objectid_mk_id get_default_def keys_def sort_desc_def pydiv_def
      accumulate_user_def add_score_def fetch_scored_def)

lemma book_features: "extract_item_features (plain_item n ''book'' []) = [(''type:book'', 1)]"
  by (simp add: extract_item_features_def plain_item_def scalar_feature_def)

lemma mx_items: "items mixed_db
      = [plain_item 2 ''movie'' [''action''], plain_item 3 ''movie'' [''action''],
         plain_item 4 ''movie'' [''action''], plain_item 5 ''book'' [],
         plain_item 6 ''book'' [], plain_item 7 ''movie'' [''action'']]"
  by (simp add: mixed_db_def)

lemma mx_profile: "get_user_preferred_features mixed_db ''A'' 3
    = Some [(''genre:action'', 1), (''type:movie'', 1)]"
  by (simp add: get_user_preferred_features_def mx_ratings_A rate_def objectid_mk_id mx_items
      oid_plain_item mk_oid_eq action_features counter_add_def get_default_def pydiv_def)

lemma book_cosine:
  "cosine_similarity_features [(''genre:action'', 1), (''type:movie'', 1)]
     [(''type:book'', 1)] = Some 0"
  by (simp add: cosine_similarity_features_def union_keys_def keys_def get_default_def
      pysqrt_def pydiv_def)

lemma mx_content:
  "generate_content_based_recommendations mixed_db ''A'' 20 (3 / 10)
   = Some [make_rec (plain_item 7 ''movie'' [''action'']) 1 ''content_based'']"
  "generate_content_based_recommendations mixed_db ''A'' 4 (3 / 10)
   = Some [make_rec (plain_item 7 ''movie'' [''action'']) 1 ''content_based'']"
  by (simp_all add: generate_content_based_recommendations_def mx_profile mx_ratings_A rate_def
      objectid_mk_id mx_items oid_plain_item mk_oid_eq action_features action_cosine
      book_features book_cosine sort_desc_def)

lemma mx_rec_id: "rec_id (make_rec (plain_item n ty gs) s t) = str_oid (mk_oid n)"
  by (simp add: make_rec_def plain_item_def)

lemma mx_score: "recommendation_score (make_rec it s t) = s"
  by (simp add: make_rec_def)

lemma mx_valid: "valid_store mixed_db"
  by (simp add: valid_store_def mixed_db_def rate_def plain_item_def mk_oid_def)

lemma cn_valid: "valid_store content_only_db"
  by (simp add: valid_store_def content_only_db_def rate_def plain_item_def mk_oid_def)

text \<open>
  On the same store the blender's order and scores follow the weights: at weights 0 and 1
  the content candidate comes first, and at weights 2 and 0 the scores are doubled.
\<close>

lemma mx_hybrid_other_weights:
  "map_option (map rec_id)
     (generate_hybrid_recommendations mixed_db ''A'' 10 0 1 (3 / 10))
   = Some [mk_id CHR ''7'', mk_id CHR ''6'', mk_id CHR ''5'']"
  "map_option (map recommendation_score)
     (generate_hybrid_recommendations mixed_db ''A'' 10 2 0 (3 / 10))
   = Some [2, 8 / 5, 0]"
  by (simp_all add: generate_hybrid_recommendations_def mx_collab mx_content normalize_scores_def
      pydiv_def make_rec_def merge_content_def merge_collaborative_def get_default_def
      default_entry_def blend_def
      sort_desc_def oid_plain_item str_oid_mk_oid mk_id_nonempty mk_id_eq)


section \<open>The claims\<close>

text \<open>
  Claim C8, as amended. On rating maps whose values are whole numbers from 0 to 5 and on
  feature vectors whose weights lie between 0 and 1, each similarity function returns a
  value: no division by zero, no missing key, no square root of a negative number and no
  power out of the float range is reached. Where the denominator of the formula is zero
  (no common key, a vector that is zero on the keys compared, fewer than two common keys,
  or a rating map that is constant on the common keys, which is zero variance) the value
  returned is 0.
\<close>

theorem similarity_on_data_model:
  "(rating_map r1 \<and> rating_map r2 \<longrightarrow>
      (\<exists>s. cosine_similarity r1 r2 = Some s)
      \<and> ((\<forall>k\<in>set (common_keys r1 r2). get_default r1 k 0 = 0)
           \<or> (\<forall>k\<in>set (common_keys r1 r2). get_default r2 k 0 = 0)
          \<longrightarrow> cosine_similarity r1 r2 = Some 0))
   \<and> (rating_map p1 \<and> rating_map p2 \<longrightarrow>
      (\<exists>s. pearson_correlation_float p1 p2 = Some s)
      \<and> (length (common_keys p1 p2) < 2
           \<or> (\<exists>c. \<forall>k\<in>set (common_keys p1 p2). get_default p1 k 0 = c)
           \<or> (\<exists>c. \<forall>k\<in>set (common_keys p1 p2). get_default p2 k 0 = c)
          \<longrightarrow> pearson_correlation_float p1 p2 = Some 0))
   \<and> (weight_vector f1 \<and> weight_vector f2 \<longrightarrow>
      (\<exists>s. cosine_similarity_features_float f1 f2 = Some s)
      \<and> ((\<forall>k\<in>set (union_keys f1 f2). get_default f1 k 0 = 0)
           \<or> (\<forall>k\<in>set (union_keys f1 f2). get_default f2 k 0 = 0)
          \<longrightarrow> cosine_similarity_features_float f1 f2 = Some 0))"
proof (intro conjI impI)
  assume r: "rating_map r1 \<and> rating_map r2"
  then show "\<exists>s. cosine_similarity r1 r2 = Some s"
    by (simp add: cosine_similarity_small)
next
  assume r: "rating_map r1 \<and> rating_map r2"
  assume "(\<forall>k\<in>set (common_keys r1 r2). get_default r1 k 0 = 0)
           \<or> (\<forall>k\<in>set (common_keys r1 r2). get_default r2 k 0 = 0)"
  then show "cosine_similarity r1 r2 = Some 0"
    using r by (auto simp: cosine_similarity_small Let_def sum_list_sq_eq_0)
next
  assume p: "rating_map p1 \<and> rating_map p2"
  then show "\<exists>s. pearson_correlation_float p1 p2 = Some s"
    by (simp add: pearson_correlation_float_small pearson_correlation_eq)
next
  assume p: "rating_map p1 \<and> rating_map p2"
  assume "length (common_keys p1 p2) < 2
           \<or> (\<exists>c. \<forall>k\<in>set (common_keys p1 p2). get_default p1 k 0 = c)
           \<or> (\<exists>c. \<forall>k\<in>set (common_keys p1 p2). get_default p2 k 0 = c)"
  then have "pearson_correlation p1 p2 = Some 0" by (rule pearson_zero_cases)
  then show "pearson_correlation_float p1 p2 = Some 0"
    using p by (simp add: pearson_correlation_float_small)
next
  assume f: "weight_vector f1 \<and> weight_vector f2"
  then show "\<exists>s. cosine_similarity_features_float f1 f2 = Some s"
    by (simp add: cosine_similarity_features_float_small cosine_similarity_features_eq)
next
  assume f: "weight_vector f1 \<and> weight_vector f2"
  assume "(\<forall>k\<in>set (union_keys f1 f2). get_default f1 k 0 = 0)
           \<or> (\<forall>k\<in>set (union_keys f1 f2). get_default f2 k 0 = 0)"
  then show "cosine_similarity_features_float f1 f2 = Some 0"
    using f
    by (auto simp: cosine_similarity_features_float_small cosine_similarity_features_eq
        Let_def sum_list_sq_eq_0)
qed

theorem similarity_on_data_model_witness:
  "cosine_similarity [(''a'', 0)] [(''a'', 1)] = Some 0
   \<and> pearson_correlation_float [(''a'', 3), (''b'', 3)] [(''a'', 1), (''b'', 2)] = Some 0
   \<and> cosine_similarity_features_float [] [(''x'', 1)] = Some 0"
proof -
  have r: "rating_map [(''a'', 0::real)]" "rating_map [(''a'', 1::real)]"
    "rating_map [(''a'', 3::real), (''b'', 3)]" "rating_map [(''a'', 1::real), (''b'', 2)]"
    by (simp_all add: rating_map_def)
  have w: "weight_vector ([] :: (string, real) pydict)" "weight_vector [(''x'', 1::real)]"
    by (simp_all add: weight_vector_def)
  show ?thesis
    using similarity_on_data_model [of "[(''a'', 0)]" "[(''a'', 1)]"
        "[(''a'', 3), (''b'', 3)]" "[(''a'', 1), (''b'', 2)]" "[]" "[(''x'', 1)]"] r w
    by (simp add: common_keys_def union_keys_def keys_def get_default_def)
qed

text \<open>
  The claim as stated, for every pair of inputs, fails on large floats: the value
  \<open>2 ^ 600\<close> (about 4e180) is a float, its square is not, and each of the three functions
  raises OverflowError on it (Pearson on the values \<open>2 ^ 600\<close> and \<open>- 2 ^ 600\<close>, whose mean
  is 0).
\<close>

theorem similarity_overflow_counterexample:
  "cosine_similarity [(''a'', huge)] [(''a'', huge)] = None
   \<and> pearson_correlation_float [(''a'', huge), (''b'', - huge)]
         [(''a'', huge), (''b'', - huge)] = None
   \<and> cosine_similarity_features_float [(''x'', huge)] [(''x'', huge)] = None"
  by (simp add: cosine_similarity_def pearson_correlation_float_def
      cosine_similarity_features_float_def common_keys_def
      union_keys_def keys_def getitem_def get_default_def pydiv_def pypow2_huge)




text \<open>
  Claim C1 (the code departs from the claim). The caller layer does substitute the output
  of \<open>get_popular_items\<close> with \<open>min_ratings = 1\<close> when a recommender returns an empty
  list, but the substitute is empty too: in the store below the catalog's one item has a
  rating, user A has none, and each of the personalised endpoints answers A with the
  empty list.
\<close>

theorem fallback_returns_nothing:
  "ratings rated_db = [rate ''B'' (mk_id CHR ''1'') 5]
   \<and> objectid (mk_id CHR ''1'') = Some (oid (plain_item 1 ''movie'' [''action'']))
   \<and> plain_item 1 ''movie'' [''action''] \<in> set (items rated_db)
   \<and> get_personalized_recommendations_endpoint rated_db ''A'' ''hybrid'' 10 = Ok []
   \<and> get_personalized_recommendations_endpoint rated_db ''A'' ''collaborative'' 10 = Ok []
   \<and> get_personalized_recommendations_endpoint rated_db ''A'' ''content'' 10 = Ok []
   \<and> get_hybrid_recommendations rated_db ''A'' 10 (6 / 10) (4 / 10) = Ok []
   \<and> get_collaborative_recommendations rated_db ''A'' 10 (3 / 10) = Ok []
   \<and> get_content_based_recommendations rated_db ''A'' 10 (3 / 10) = Ok []"
proof -
  have p: "get_popular_items rated_db None None None 10 1 = Some []"
    by (rule popular_empty) simp_all
  have f: "with_fallback rated_db 10 (Some []) = Ok []"
    by (simp add: with_fallback_def p)
  show ?thesis
    by (simp add: get_personalized_recommendations_endpoint_def
        get_personalized_recommendations_def get_hybrid_recommendations_def
        get_collaborative_recommendations_def get_content_based_recommendations_def
        rated_collab rated_content rated_hybrid f objectid_mk_id)
       (simp add: rated_db_def plain_item_def)
qed


text \<open>
  Claim C2 (the code departs from the claim). \<open>get_popular_items\<close> joins on the item's
  ObjectId against the ratings' string \<open>item_id\<close>, so the join is empty for every item:
  the rated item of the store below is excluded at \<open>min_ratings = 1\<close>, where the claim
  gives it the score \<open>5 * (1 + 0.1 * 1)\<close>. \<open>get_trending_items\<close>, which converts the
  ObjectId to its string first, finds the rating.
\<close>

theorem popular_join_never_matches:
  "lookup_ratings rated_db (BObjectId (oid (plain_item 1 ''movie'' [''action'']))) = []
   \<and> lookup_ratings rated_db (BString (str_oid (oid (plain_item 1 ''movie'' [''action'']))))
       = [rate ''B'' (mk_id CHR ''1'') 5]
   \<and> get_popular_items rated_db None None None 10 1 = Some []
   \<and> get_trending_items rated_db 0 None 7 10
       = Some [make_rec (plain_item 1 ''movie'' [''action'']) 5 ''trending'']"
proof (intro conjI)
  show "get_popular_items rated_db None None None 10 1 = Some []"
    by (rule popular_empty) simp_all
  show "lookup_ratings rated_db (BObjectId (oid (plain_item 1 ''movie'' [''action'']))) = []"
    by (simp add: lookup_ratings_def)
  show "lookup_ratings rated_db (BString (str_oid (oid (plain_item 1 ''movie'' [''action'']))))
       = [rate ''B'' (mk_id CHR ''1'') 5]"
    by (simp add: lookup_ratings_def rated_db_def plain_item_def str_oid_mk_oid rate_def)
  show "get_trending_items rated_db 0 None 7 10
       = Some [make_rec (plain_item 1 ''movie'' [''action'']) 5 ''trending'']"
    by (simp add: get_trending_items_def lookup_ratings_def rated_db_def plain_item_def
        str_oid_mk_oid rate_def match_filter_def avg_def null_last_def make_rec_def)
qed

text \<open>
  Claim C3, as amended. In the scenario store the Pearson correlation of A's and B's
  rating maps is 1, but A and B share two items only, fewer than the default
  \<open>min_common_items = 3\<close>: \<open>find_similar_users\<close> returns no neighbour for A (it returns
  B with similarity 1 when called with \<open>min_common_items = 2\<close>), and
  \<open>generate_collaborative_recommendations\<close>, which always asks for three common items,
  returns the empty list. With a third item rated alike by both, B is A's neighbour and
  item3 is recommended with score 5.
\<close>

theorem scenario_as_coded:
  "pearson_correlation (get_user_ratings_dict scenario_db ''A'')
     (get_user_ratings_dict scenario_db ''B'') = Some 1
   \<and> find_similar_users scenario_db ''A'' 3 10 = Some []
   \<and> find_similar_users scenario_db ''A'' 2 10 = Some [(''B'', 1)]
   \<and> generate_collaborative_recommendations scenario_db ''A'' 10 (3 / 10) = Some []
   \<and> find_similar_users scenario_db3 ''A'' 3 10 = Some [(''B'', 1)]
   \<and> generate_collaborative_recommendations scenario_db3 ''A'' 10 (3 / 10)
       = Some [make_rec (plain_item 3 ''movie'' []) 5 ''collaborative'']"
  by (simp add: scenario_urd scenario_pearson scenario_fsu3 scenario_fsu2 scenario_gcr
      s3_fsu s3_gcr)

text \<open>
  The claim as stated fails in its own scenario: with the default parameters A has no
  similar user and receives no collaborative recommendation.
\<close>

theorem scenario_counterexample:
  "find_similar_users scenario_db ''A'' 3 10 = Some []
   \<and> generate_collaborative_recommendations scenario_db ''A'' 10 (3 / 10) = Some []"
  by (simp add: scenario_fsu3 scenario_gcr)

text \<open>
  Claim C6, as amended. For every item with item type "product", the feature extractor's
  output has the entry \<open>category:<c>\<close>, with weight 1, exactly when \<open>c\<close> is the item's
  category and is not empty, where the category is the top-level \<open>category\<close> field of the
  item document (as \<open>create_item\<close> stores it), not an entry of the metadata map; the
  brand is read from the metadata map.
\<close>

theorem product_category_feature:
  assumes "item_type it = ''product''"
  shows "getitem (extract_item_features it) (''category:'' @ c) =
           (if category it = Some c \<and> c \<noteq> [] then Some 1 else None)"
proof -
  define base :: "(string, real) pydict" where "base = AList.update (''type:'' @ item_type it) 1
                 (fold (\<lambda>tag f. AList.update (''tag:'' @ tag) 1 f) (tags it)
                   (fold (\<lambda>genre f. AList.update (''genre:'' @ genre) 1 f) (genres it) []))"
  define branded where "branded = scalar_feature (metadata it) ''brand'' ''brand:'' 1 base"
  have base: "map_of base (''category:'' @ c) = None"
    by (auto simp: base_def update_conv' map_of_fold_update)
  have branded: "map_of branded (''category:'' @ c) = None"
    unfolding branded_def map_of_scalar_feature using base
    by (simp split: option.splits jvalue.splits)
  show ?thesis
  proof (cases "category it")
    case None
    then have "extract_item_features it = branded"
      using assms by (simp add: extract_item_features_def Let_def branded_def base_def)
    then show ?thesis using branded None by (simp add: getitem_def)
  next
    case (Some c')
    show ?thesis
    proof (cases "c' = []")
      case True
      then have "extract_item_features it = branded"
        using assms Some by (simp add: extract_item_features_def Let_def branded_def base_def)
      then show ?thesis using branded Some True by (auto simp: getitem_def)
    next
      case False
      then have "extract_item_features it = AList.update (''category:'' @ c') 1 branded"
        using assms Some by (simp add: extract_item_features_def Let_def branded_def base_def)
      then show ?thesis using branded Some False by (auto simp: getitem_def update_conv')
    qed
  qed
qed

theorem product_category_feature_witness:
  "getitem (extract_item_features product_with_category) ''category:tools'' = Some 1"
  using product_category_feature [of product_with_category "''tools''"]
  by (simp add: product_with_category_def)

text \<open>
  The claim as stated fails for a product whose category is held in the metadata map, as
  the claim's data model has it: the extractor's output has the type and the brand and no
  category entry.
\<close>

theorem product_category_counterexample:
  "item_type product_category_in_metadata = ''product''
   \<and> map_of (metadata product_category_in_metadata) ''category'' = Some (JStr ''tools'')
   \<and> extract_item_features product_category_in_metadata
       = [(''type:product'', 1), (''brand:acme'', 1)]
   \<and> getitem (extract_item_features product_category_in_metadata) ''category:tools'' = None"
  by (simp add: product_category_in_metadata_def extract_item_features_def scalar_feature_def
      getitem_def)

text \<open>
  Claim C10. \<open>find_similar_items\<close> returns the empty list when the identifier is not a
  valid ObjectId text or names no stored item; it never raises; and every record it
  returns is an item of the same item type as the query item, with an \<open>_id\<close> different
  from the query item's.
\<close>

theorem find_similar_items_contract:
  "(\<not> is_valid i \<or> (\<exists>x. objectid i = Some x \<and> find_one d x = None)
      \<longrightarrow> find_similar_items d i limit min_similarity = Some [])
   \<and> (\<exists>recs. find_similar_items d i limit min_similarity = Some recs)
   \<and> (find_similar_items d i limit min_similarity = Some recs \<and> r \<in> set recs
      \<longrightarrow> (\<exists>x it. objectid i = Some x \<and> find_one d x = Some it
             \<and> item_type (doc r) = item_type it \<and> oid (doc r) \<noteq> oid it))"
proof (intro conjI impI)
  assume "\<not> is_valid i \<or> (\<exists>x. objectid i = Some x \<and> find_one d x = None)"
  then show "find_similar_items d i limit min_similarity = Some []"
    by (auto simp: find_similar_items_def)
next
  let ?step = "\<lambda>fs other_item. do {
      similarity \<leftarrow> cosine_similarity_features fs (extract_item_features other_item);
      Some (if similarity \<ge> min_similarity
            then [(make_rec other_item similarity ''content_based'')
                    \<lparr>similarity_score := Some similarity\<rparr>]
            else []) }"
  have total: "\<And>fs xs. \<exists>ys. mapM (?step fs) xs = Some ys"
  proof -
    fix fs xs
    show "\<exists>ys. mapM (?step fs) xs = Some ys"
      by (induction xs) (auto simp: cosine_similarity_features_eq)
  qed
  show "\<exists>recs. find_similar_items d i limit min_similarity = Some recs"
  proof (cases "is_valid i")
    case False
    then show ?thesis by (simp add: find_similar_items_def)
  next
    case True
    then obtain x where x: "objectid i = Some x" by (auto simp: is_valid_def)
    show ?thesis
    proof (cases "find_one d x")
      case None
      then show ?thesis using True x by (simp add: find_similar_items_def)
    next
      case (Some it)
      obtain ys where "mapM (?step (extract_item_features it))
          (filter (\<lambda>other. item_type other = item_type it \<and> oid other \<noteq> x) (items d)) = Some ys"
        using total by blast
      then show ?thesis using True x Some by (simp add: find_similar_items_def Let_def)
    qed
  qed
next
  assume a: "find_similar_items d i limit min_similarity = Some recs \<and> r \<in> set recs"
  then have recs: "find_similar_items d i limit min_similarity = Some recs" and r: "r \<in> set recs"
    by simp_all
  from recs r have valid: "is_valid i"
    by (auto simp: find_similar_items_def split: if_splits)
  then obtain x where x: "objectid i = Some x" by (auto simp: is_valid_def)
  from recs r valid x obtain it where it: "find_one d x = Some it"
    by (cases "find_one d x") (auto simp: find_similar_items_def)
  from recs valid x it obtain ys where
    ys: "mapM (\<lambda>other_item. do {
            similarity \<leftarrow> cosine_similarity_features (extract_item_features it)
                            (extract_item_features other_item);
            Some (if similarity \<ge> min_similarity
                  then [(make_rec other_item similarity ''content_based'')
                          \<lparr>similarity_score := Some similarity\<rparr>]
                  else []) })
          (filter (\<lambda>other. item_type other = item_type it \<and> oid other \<noteq> x) (items d)) = Some ys"
    and recs_eq: "recs = take limit (sort_desc recommendation_score (concat ys))"
    by (auto simp: find_similar_items_def Let_def split: bind_splits)
  from r recs_eq have "r \<in> set (concat ys)"
    by (auto dest: in_set_takeD)
  then obtain y where y: "y \<in> set ys" and ry: "r \<in> set y" by auto
  from mapM_SomeD[OF ys y] obtain other where
    other: "other \<in> set (filter (\<lambda>other. item_type other = item_type it \<and> oid other \<noteq> x) (items d))"
    and step: "do {
            similarity \<leftarrow> cosine_similarity_features (extract_item_features it)
                            (extract_item_features other);
            Some (if similarity \<ge> min_similarity
                  then [(make_rec other similarity ''content_based'')
                          \<lparr>similarity_score := Some similarity\<rparr>]
                  else []) } = Some y"
    by blast
  from step ry have "doc r = other"
    by (auto simp: make_rec_def split: bind_splits if_splits)
  moreover have "oid it = x" using it by (simp add: find_one_oid)
  ultimately show "\<exists>x it. objectid i = Some x \<and> find_one d x = Some it
             \<and> item_type (doc r) = item_type it \<and> oid (doc r) \<noteq> oid it"
    using x it other by auto
qed

theorem find_similar_items_contract_witness:
  "find_similar_items scenario_db ''item2'' 10 (3 / 10) = Some []
   \<and> find_similar_items scenario_db (mk_id CHR ''2'') 10 (3 / 10) =
     Some [(make_rec (plain_item 1 ''movie'' []) 1 ''content_based'')\<lparr>similarity_score := Some 1\<rparr>,
           (make_rec (plain_item 3 ''movie'' []) 1 ''content_based'')\<lparr>similarity_score := Some 1\<rparr>]
   \<and> (\<exists>x it. objectid (mk_id CHR ''2'') = Some x \<and> find_one scenario_db x = Some it
         \<and> item_type (plain_item 3 ''movie'' []) = item_type it
         \<and> oid (plain_item 3 ''movie'' []) \<noteq> oid it)"
proof -
  have inv: "\<not> is_valid ''item2''"
    by (simp add: is_valid_def objectid_def)
  have a: "find_similar_items scenario_db ''item2'' 10 (3 / 10) = Some []"
    using find_similar_items_contract [of "''item2''" scenario_db 10 "3 / 10"] inv by blast
  have b: "\<exists>x it. objectid (mk_id CHR ''2'') = Some x \<and> find_one scenario_db x = Some it
         \<and> item_type (doc ((make_rec (plain_item 3 ''movie'' []) 1 ''content_based'')\<lparr>similarity_score := Some 1\<rparr>)) = item_type it
         \<and> oid (doc ((make_rec (plain_item 3 ''movie'' []) 1 ''content_based'')\<lparr>similarity_score := Some 1\<rparr>)) \<noteq> oid it"
    using find_similar_items_contract [of "mk_id CHR ''2''" scenario_db 10 "3 / 10"
        "[(make_rec (plain_item 1 ''movie'' []) 1 ''content_based'')\<lparr>similarity_score := Some 1\<rparr>,
           (make_rec (plain_item 3 ''movie'' []) 1 ''content_based'')\<lparr>similarity_score := Some 1\<rparr>]"
        "(make_rec (plain_item 3 ''movie'' []) 1 ''content_based'')\<lparr>similarity_score := Some 1\<rparr>"]
      scenario_similar by simp
  show ?thesis using a b scenario_similar by (simp add: make_rec_def)
qed


text \<open>
  Claim C7. In \<open>generate_collaborative_recommendations\<close> the accumulator of an item,
  after the loop over the similar users, holds the sum and the number of the contributions
  to that item: a neighbour contributes, similarity times its rating, to an item it has
  rated and the target user has not, and only when its similarity is at least
  \<open>min_similarity\<close>. The score of every recommended item is that sum divided by that
  number, the plain average over the contributing neighbours (the sum of the similarities
  plays no part).
\<close>

theorem collaborative_score_policy:
  "getitem (fold (accumulate_user d (keys (get_user_ratings_dict d u)) ms) sims []) i =
     (if i \<in> set (keys (get_user_ratings_dict d u)) \<or> contributions d ms sims i = [] then None
      else Some (sum_list (contributions d ms sims i), length (contributions d ms sims i)))
   \<and> (generate_collaborative_recommendations d u limit ms = Some recs \<and> r \<in> set recs \<longrightarrow>
       (\<exists>similar_users j. find_similar_users d u 3 50 = Some similar_users
          \<and> objectid j = Some (oid (doc r))
          \<and> j \<notin> set (keys (get_user_ratings_dict d u))
          \<and> contributions d ms similar_users j \<noteq> []
          \<and> recommendation_score r =
              sum_list (contributions d ms similar_users j)
                / real (length (contributions d ms similar_users j))))"
proof (intro conjI impI)
  show "getitem (fold (accumulate_user d (keys (get_user_ratings_dict d u)) ms) sims []) i =
     (if i \<in> set (keys (get_user_ratings_dict d u)) \<or> contributions d ms sims i = [] then None
      else Some (sum_list (contributions d ms sims i), length (contributions d ms sims i)))"
    by (simp add: getitem_def fold_accumulate get_default_def)
next
  assume a: "generate_collaborative_recommendations d u limit ms = Some recs \<and> r \<in> set recs"
  define rated where "rated = keys (get_user_ratings_dict d u)"
  from a obtain similar_users where su: "find_similar_users d u 3 50 = Some similar_users"
    by (auto simp: generate_collaborative_recommendations_def split: bind_splits)
  define item_scores where "item_scores = fold (accumulate_user d rated ms) similar_users []"
  let ?avg = "\<lambda>(i, s, c). if c > 0 then do { avg_score \<leftarrow> pydiv s (real c); Some [(i, avg_score, c)] }
              else Some []"
  from a su obtain scored fetched where
    scored: "mapM ?avg item_scores = Some scored"
    and fetched: "mapM (fetch_scored d)
        (take limit (sort_desc (\<lambda>(i, s, c). s) (concat scored))) = Some fetched"
    and recs: "recs = concat fetched"
    by (auto simp: generate_collaborative_recommendations_def Let_def item_scores_def rated_def
        split: bind_splits if_splits)
  from a recs obtain y where y: "y \<in> set fetched" and ry: "r \<in> set y" by auto
  from mapM_SomeD[OF fetched y] obtain rc where
    rc: "rc \<in> set (take limit (sort_desc (\<lambda>(i, s, c). s) (concat scored)))"
    and fy: "fetch_scored d rc = Some y" by blast
  obtain j s c where rc_eq: "rc = (j, s, c)" by (cases rc)
  from fetch_scored_SomeD[OF fy[unfolded rc_eq] ry] obtain it where
    it: "objectid j = Some (oid it)" "r = make_rec it s ''collaborative''" by blast
  from rc have "rc \<in> set (concat scored)" by (auto dest: in_set_takeD)
  then obtain z where z: "z \<in> set scored" and rcz: "rc \<in> set z" by auto
  from mapM_SomeD[OF scored z] obtain e where
    e: "e \<in> set item_scores" and ez: "?avg e = Some z" by blast
  obtain j' s' c' where e_eq: "e = (j', s', c')" by (cases e) auto
  from ez rcz have same: "j' = j" "c' = c" "0 < c" "s = s' / real c"
    by (auto simp: e_eq rc_eq pydiv_def split: if_splits bind_splits)
  have "distinct (map fst item_scores)"
    unfolding item_scores_def by (rule fold_accumulate_distinct) simp
  with e have m: "map_of item_scores j = Some (s', c)"
    by (simp add: e_eq same)
  have m': "map_of item_scores j =
     (if j \<in> set rated \<or> contributions d ms similar_users j = [] then None
      else Some (sum_list (contributions d ms similar_users j),
                 length (contributions d ms similar_users j)))"
    by (simp add: item_scores_def fold_accumulate get_default_def)
  from m m' have nr: "j \<notin> set rated" and ne: "contributions d ms similar_users j \<noteq> []"
    and vals: "s' = sum_list (contributions d ms similar_users j)"
              "c = length (contributions d ms similar_users j)"
    by (auto split: if_splits)
  show "\<exists>similar_users j. find_similar_users d u 3 50 = Some similar_users
          \<and> objectid j = Some (oid (doc r))
          \<and> j \<notin> set (keys (get_user_ratings_dict d u))
          \<and> contributions d ms similar_users j \<noteq> []
          \<and> recommendation_score r =
              sum_list (contributions d ms similar_users j)
                / real (length (contributions d ms similar_users j))"
    using su it nr ne vals same
    by (intro exI[of _ similar_users] exI[of _ j]) (simp add: make_rec_def rated_def)
qed


theorem collaborative_score_policy_witness:
  "getitem (fold (accumulate_user scenario_db3 (keys (get_user_ratings_dict scenario_db3 ''A''))
              (3 / 10)) [(''B'', 1)] []) (mk_id CHR ''3'') = Some (5, 1)
   \<and> generate_collaborative_recommendations scenario_db3 ''A'' 10 (3 / 10)
       = Some [make_rec (plain_item 3 ''movie'' []) 5 ''collaborative'']
   \<and> (\<exists>similar_users j. find_similar_users scenario_db3 ''A'' 3 50 = Some similar_users
          \<and> objectid j = Some (oid (doc (make_rec (plain_item 3 ''movie'' []) 5 ''collaborative'')))
          \<and> j \<notin> set (keys (get_user_ratings_dict scenario_db3 ''A''))
          \<and> contributions scenario_db3 (3 / 10) similar_users j \<noteq> []
          \<and> recommendation_score (make_rec (plain_item 3 ''movie'' []) 5 ''collaborative'') =
              sum_list (contributions scenario_db3 (3 / 10) similar_users j)
                / real (length (contributions scenario_db3 (3 / 10) similar_users j)))"
proof -
  note t = collaborative_score_policy [of scenario_db3 "''A''" "3 / 10" "[(''B'', 1)]"
      "mk_id CHR ''3''" 10 "[make_rec (plain_item 3 ''movie'' []) 5 ''collaborative'']"
      "make_rec (plain_item 3 ''movie'' []) 5 ''collaborative''"]
  have nr: "mk_id CHR ''3'' \<notin> set (keys (get_user_ratings_dict scenario_db3 ''A''))"
    by (simp add: s3_urd keys_def mk_id_eq)
  from t have a: "getitem (fold (accumulate_user scenario_db3
              (keys (get_user_ratings_dict scenario_db3 ''A'')) (3 / 10)) [(''B'', 1)] [])
            (mk_id CHR ''3'') = Some (5, 1)"
    using nr by (simp add: s3_contrib)
  from t s3_gcr have b: "\<exists>similar_users j. find_similar_users scenario_db3 ''A'' 3 50 = Some similar_users
          \<and> objectid j = Some (oid (doc (make_rec (plain_item 3 ''movie'' []) 5 ''collaborative'')))
          \<and> j \<notin> set (keys (get_user_ratings_dict scenario_db3 ''A''))
          \<and> contributions scenario_db3 (3 / 10) similar_users j \<noteq> []
          \<and> recommendation_score (make_rec (plain_item 3 ''movie'' []) 5 ''collaborative'') =
              sum_list (contributions scenario_db3 (3 / 10) similar_users j)
                / real (length (contributions scenario_db3 (3 / 10) similar_users j))"
    by simp
  show ?thesis using a b s3_gcr by blast
qed


text \<open>
  Claim C9 (the code departs from the claim). The collaborative recommender excludes the
  user's items by comparing the identifier strings stored in the ratings, while it fetches
  the recommended item by ObjectId, which reads hexadecimal digits of either case. In
  the store below A and B have rated the same four items; B's rating of the fourth spells
  its identifier in upper case. A is recommended that fourth item, which A has rated.
  (The content recommender compares ObjectIds, see \<open>content_based_excludes_rated\<close>.)
\<close>

theorem collaborative_returns_rated_item:
  "generate_collaborative_recommendations case_db ''A'' 10 (3 / 10)
     = Some [make_rec (plain_item 13 ''movie'' []) 5 ''collaborative'']
   \<and> rec_id (make_rec (plain_item 13 ''movie'' []) 5 ''collaborative'') = mk_id CHR ''d''
   \<and> rate ''A'' (mk_id CHR ''d'') 5 \<in> set (ratings case_db)
   \<and> rate ''B'' (mk_id CHR ''D'') 5 \<in> set (ratings case_db)
   \<and> objectid (mk_id CHR ''d'') = Some (oid (plain_item 13 ''movie'' []))
   \<and> objectid (mk_id CHR ''D'') = Some (oid (plain_item 13 ''movie'' []))"
proof (intro conjI)
  show "generate_collaborative_recommendations case_db ''A'' 10 (3 / 10)
     = Some [make_rec (plain_item 13 ''movie'' []) 5 ''collaborative'']"
    by (simp add: generate_collaborative_recommendations_def case_fsu case_urd case_find_one
        mk_id_eq objectid_mk_id get_default_def keys_def sort_desc_def pydiv_def
        accumulate_user_def add_score_def fetch_scored_def)
  show "rec_id (make_rec (plain_item 13 ''movie'' []) 5 ''collaborative'') = mk_id CHR ''d''"
    by (simp add: make_rec_def plain_item_def str_oid_mk_oid)
  show "rate ''A'' (mk_id CHR ''d'') 5 \<in> set (ratings case_db)"
    by (simp add: case_db_def)
  show "rate ''B'' (mk_id CHR ''D'') 5 \<in> set (ratings case_db)"
    by (simp add: case_db_def)
  show "objectid (mk_id CHR ''d'') = Some (oid (plain_item 13 ''movie'' []))"
    by (simp add: objectid_mk_id plain_item_def)
  show "objectid (mk_id CHR ''D'') = Some (oid (plain_item 13 ''movie'' []))"
    by (simp add: objectid_mk_id plain_item_def)
qed


text \<open>
  Claim C5, as amended. On a store of the data model (every rating has a value from 1 to
  5, every ObjectId has 12 bytes), let the collaborative and the content recommender,
  asked as the blender asks them for twice the limit, return two lists in which no item
  identifier occurs twice, so that the 1.2 co-appearance boost is absent. Then
  \<open>generate_hybrid_recommendations\<close> with collaborative weight 1 and content weight 0
  returns the first \<open>limit\<close> records of the collaborative candidates followed by the
  content candidates, a collaborative candidate with its score divided by the highest
  collaborative score and a content candidate with score 0. The sequence of item
  identifiers of \<open>generate_collaborative_recommendations\<close> for the same user and limit is
  an initial segment of the hybrid one, and the two sequences are equal when the
  collaborative list has \<open>limit\<close> entries.
\<close>

theorem hybrid_begins_with_collaborative:
  assumes vs: "valid_store d"
    and c2: "generate_collaborative_recommendations d u (limit * 2) ms = Some c2"
    and t2: "generate_content_based_recommendations d u (limit * 2) ms = Some t2"
    and once: "distinct (map rec_id (c2 @ t2))"
  shows "\<exists>h c. generate_hybrid_recommendations d u limit 1 0 ms = Some h
           \<and> generate_collaborative_recommendations d u limit ms = Some c
           \<and> map rec_id h = take limit (map rec_id (c2 @ t2))
           \<and> map recommendation_score h
               = take limit (map (\<lambda>r. recommendation_score r / recommendation_score (hd c2)) c2
                             @ map (\<lambda>r. 0) t2)
           \<and> take (length c) (map rec_id h) = map rec_id c
           \<and> (length c = limit \<longrightarrow> map rec_id h = map rec_id c)"
proof -
  from collaborative_candidates[OF vs, of u ms]
  obtain cands :: "(string \<times> real \<times> nat) list" where
    pos: "\<forall>x\<in>set cands. 0 < fst (snd x)"
    and sorted: "sorted (map (\<lambda>x. - fst (snd x)) cands)"
    and shape: "\<And>L. generate_collaborative_recommendations d u L ms
                 = map_option concat (mapM (fetch_scored d) (take L cands))"
    by blast
  from c2 obtain ys2 where ys2: "mapM (fetch_scored d) (take (limit * 2) cands) = Some ys2"
    and c2_eq: "c2 = concat ys2"
    unfolding shape by auto
  have split: "take (limit * 2) cands = take limit cands @ take limit (drop limit cands)"
    using take_add[of limit limit cands] by (simp add: mult_2_right)
  from ys2 obtain a b where a: "mapM (fetch_scored d) (take limit cands) = Some a"
    and ys2_eq: "ys2 = a @ b"
    unfolding split by (blast dest: mapM_append)
  define c where "c = concat a"
  have c: "generate_collaborative_recommendations d u limit ms = Some c"
    unfolding shape by (simp add: a c_def)
  have c2_c: "c2 = c @ concat b" by (simp add: c2_eq ys2_eq c_def)
  have len_c: "length c \<le> limit"
    using fetched_records[OF a] unfolding c_def by simp
  have sorted2: "sorted (map (\<lambda>x. - fst (snd x)) (take (limit * 2) cands))"
    using sorted by (simp add: take_map[symmetric] sorted_wrt_take)
  note f2 = fetched_records[OF ys2, folded c2_eq]
  have c2_sorted: "sorted (map (\<lambda>r. - recommendation_score r) c2)"
    using f2 sorted2 by blast
  have c2_pos: "\<forall>r\<in>set c2. 0 < recommendation_score r"
  proof
    fix r assume "r \<in> set c2"
    then have "recommendation_score r \<in> (\<lambda>x. fst (snd x)) ` set (take (limit * 2) cands)"
      using f2 by blast
    then obtain x where "x \<in> set (take (limit * 2) cands)" "recommendation_score r = fst (snd x)"
      by blast
    then show "0 < recommendation_score r" using pos by (metis in_set_takeD)
  qed
  have c2_ne: "\<forall>r\<in>set c2. rec_id r \<noteq> []"
  proof
    fix r assume "r \<in> set c2"
    then obtain it where "it \<in> set (items d)" "rec_id r = str_oid (oid it)" using f2 by blast
    then show "rec_id r \<noteq> []"
      using valid_store_oid[OF vs] str_oid_nonempty by simp
  qed
  have t2_ne: "\<forall>r\<in>set t2. rec_id r \<noteq> []"
  proof
    fix r assume "r \<in> set t2"
    then obtain it where "it \<in> set (items d)" "rec_id r = str_oid (oid it)"
      using content_records[OF t2] by blast
    then show "rec_id r \<noteq> []"
      using valid_store_oid[OF vs] str_oid_nonempty by simp
  qed
  define top where "top = recommendation_score (hd c2)"
  define N where "N = (\<lambda>r :: recommendation. r\<lparr>normalized_score := Some (recommendation_score r / top)\<rparr>)"
  have n2: "normalize_scores c2 = Some (map N c2)"
    unfolding N_def top_def by (rule normalize_sorted[OF c2_pos c2_sorted])
  from normalize_total[of t2] obtain tn where tn: "normalize_scores t2 = Some tn"
    and tn_ids: "map rec_id tn = map rec_id t2" by blast
  have tn_len: "length tn = length t2" using tn_ids by (rule map_eq_imp_length_eq)
  have n2_ids: "map rec_id (map N c2) = map rec_id c2" by (simp add: N_def)
  have top_pos: "0 < top" if "x \<in> set c2" for x
  proof -
    from that have "c2 \<noteq> []" by auto
    then have "hd c2 \<in> set c2" by simp
    then show ?thesis unfolding top_def using c2_pos by blast
  qed
  have merged1: "fold merge_collaborative (map N c2) [] = map entry_of (map N c2)"
  proof -
    have "distinct (map rec_id (map N c2))" unfolding n2_ids using once by simp
    moreover have "\<forall>r\<in>set (map N c2). rec_id r \<noteq> []
        \<and> rec_id r \<notin> fst ` set ([] :: (string \<times> hybrid_entry) list)"
      using c2_ne by (simp add: N_def)
    ultimately show ?thesis using merge_collaborative_shape by fastforce
  qed
  have merged2: "fold merge_content tn (map entry_of (map N c2))
      = map entry_of (map N c2) @ map centry_of tn"
  proof (rule merge_content_shape)
    show "distinct (map rec_id tn)" unfolding tn_ids using once by simp
    show "\<forall>r\<in>set tn. rec_id r \<noteq> [] \<and> rec_id r \<notin> fst ` set (map entry_of (map N c2))"
    proof
      fix r assume "r \<in> set tn"
      then have "rec_id r \<in> set (map rec_id tn)" by simp
      then have in_t2: "rec_id r \<in> rec_id ` set t2" unfolding tn_ids by simp
      then have "rec_id r \<noteq> []" using t2_ne by auto
      moreover have "rec_id r \<notin> rec_id ` set c2" using once in_t2 by auto
      then have "rec_id r \<notin> fst ` set (map entry_of (map N c2))"
        by (simp add: entry_of_def N_def image_image)
      ultimately show "rec_id r \<noteq> [] \<and> rec_id r \<notin> fst ` set (map entry_of (map N c2))"
        by simp
    qed
  qed
  define B where "B = (\<lambda>r :: recommendation. r\<lparr>recommendation_score := nz r, recommendation_type := ''hybrid'',
        collaborative_score := Some (nz r), content_score := Some 0\<rparr>)"
  define B0 where "B0 = (\<lambda>r :: recommendation. r\<lparr>recommendation_score := 0, recommendation_type := ''hybrid'',
        collaborative_score := Some 0, content_score := Some (nz r)\<rparr>)"
  define out where "out = map B (map N c2) @ map B0 tn"
  have blended1: "concat (map (blend 1 0) (map entry_of xs)) = map B xs" for xs
    by (induction xs) (simp_all add: blend_entry B_def)
  have blended2: "concat (map (blend 1 0) (map centry_of xs)) = map B0 xs" for xs
    by (induction xs) (simp_all add: blend_centry B0_def)
  have blended: "concat (map (blend 1 0) (map entry_of (map N c2) @ map centry_of tn)) = out"
    by (simp add: out_def blended1 blended2 del: map_map)
  have out_scores: "map recommendation_score out
      = map (\<lambda>r. recommendation_score r / top) c2 @ map (\<lambda>r. 0) t2"
  proof -
    have "map (\<lambda>r. 0::real) tn = map (\<lambda>r. 0) t2"
      using tn_len by (simp add: map_replicate_const)
    then show ?thesis by (simp add: out_def B_def B0_def N_def nz_def comp_def)
  qed
  have out_ids: "map rec_id out = map rec_id (c2 @ t2)"
    using tn_ids by (simp add: out_def B_def B0_def N_def comp_def)
  have out_sorted: "sorted (map (\<lambda>x. - recommendation_score x) out)"
  proof -
    have "sorted_wrt (\<lambda>x y. - recommendation_score x \<le> - recommendation_score y) c2"
      using c2_sorted by (simp add: sorted_map)
    then have "sorted_wrt (\<lambda>x y. - (recommendation_score x / top) \<le> - (recommendation_score y / top)) c2"
    proof (rule sorted_wrt_mono_rel[rotated])
      fix x y assume "x \<in> set c2" "y \<in> set c2"
        and le: "- recommendation_score x \<le> - recommendation_score y"
      then have "0 < top" using top_pos by blast
      with le show "- (recommendation_score x / top) \<le> - (recommendation_score y / top)"
        by (simp add: divide_right_mono)
    qed
    then have s1: "sorted (map (\<lambda>r. - (recommendation_score r / top)) c2)"
      by (simp add: sorted_map)
    have s2: "sorted (map (\<lambda>r. - (0::real)) t2)"
      by (simp add: map_replicate_const)
    have s3: "\<forall>x\<in>set c2. - (recommendation_score x / top) \<le> 0"
    proof
      fix x assume x: "x \<in> set c2"
      then have "0 < top" using top_pos by blast
      moreover have "0 < recommendation_score x" using c2_pos x by simp
      ultimately show "- (recommendation_score x / top) \<le> 0" by simp
    qed
    have "map (\<lambda>x. - recommendation_score x) out = map uminus (map recommendation_score out)"
      by (simp add: comp_def)
    also have "\<dots> = map (\<lambda>r. - (recommendation_score r / top)) c2 @ map (\<lambda>r. - 0) t2"
      unfolding out_scores by (simp add: comp_def)
    finally show ?thesis using s1 s2 s3 by (simp add: sorted_append)
  qed
  then have sorted_id: "sort_desc recommendation_score out = out"
    unfolding sort_desc_def by (rule sort_key_id_if_sorted)
  define h where "h = take limit out"
  have h: "generate_hybrid_recommendations d u limit 1 0 ms = Some h"
    unfolding generate_hybrid_recommendations_def c2 t2
    by (simp add: n2 tn merged1 merged2 blended sorted_id h_def del: map_map map_append)
  have h_ids: "map rec_id h = take limit (map rec_id (c2 @ t2))"
    unfolding h_def take_map out_ids[symmetric] ..
  have h_scores: "map recommendation_score h
      = take limit (map (\<lambda>r. recommendation_score r / recommendation_score (hd c2)) c2
                    @ map (\<lambda>r. 0) t2)"
    unfolding h_def take_map out_scores[symmetric, unfolded top_def] ..
  have ids_split: "map rec_id (c2 @ t2) = map rec_id c @ map rec_id (concat b @ t2)"
    by (simp add: c2_c)
  have prefix: "take (length c) (map rec_id h) = map rec_id c"
    unfolding h_ids ids_split using len_c by (simp add: min_def)
  have full: "length c = limit \<longrightarrow> map rec_id h = map rec_id c"
    unfolding h_ids ids_split by simp
  show ?thesis
    by (rule exI[of _ h], rule exI[of _ c]) (intro conjI h c h_ids h_scores prefix full)
qed

theorem hybrid_begins_with_collaborative_witness:
  "valid_store mixed_db
   \<and> generate_collaborative_recommendations mixed_db ''A'' (10 * 2) (3 / 10)
       = Some [make_rec (plain_item 6 ''book'' []) 5 ''collaborative'',
               make_rec (plain_item 5 ''book'' []) 4 ''collaborative'']
   \<and> generate_content_based_recommendations mixed_db ''A'' (10 * 2) (3 / 10)
       = Some [make_rec (plain_item 7 ''movie'' [''action'']) 1 ''content_based'']
   \<and> generate_collaborative_recommendations mixed_db ''A'' 10 (3 / 10)
       = Some [make_rec (plain_item 6 ''book'' []) 5 ''collaborative'',
               make_rec (plain_item 5 ''book'' []) 4 ''collaborative'']
   \<and> (\<exists>h. generate_hybrid_recommendations mixed_db ''A'' 10 1 0 (3 / 10) = Some h
          \<and> map rec_id h = [mk_id CHR ''6'', mk_id CHR ''5'', mk_id CHR ''7'']
          \<and> map recommendation_score h = [1, 4 / 5, 0])
   \<and> generate_collaborative_recommendations mixed_db ''A'' 2 (3 / 10)
       = Some [make_rec (plain_item 6 ''book'' []) 5 ''collaborative'',
               make_rec (plain_item 5 ''book'' []) 4 ''collaborative'']
   \<and> (\<exists>h. generate_hybrid_recommendations mixed_db ''A'' 2 1 0 (3 / 10) = Some h
          \<and> map rec_id h = [mk_id CHR ''6'', mk_id CHR ''5'']
          \<and> map recommendation_score h = [1, 4 / 5])"
proof -
  define c2 where "c2 = [make_rec (plain_item 6 ''book'' []) 5 ''collaborative'',
                         make_rec (plain_item 5 ''book'' []) 4 ''collaborative'']"
  define t2 where "t2 = [make_rec (plain_item 7 ''movie'' [''action'']) 1 ''content_based'']"
  have c20: "generate_collaborative_recommendations mixed_db ''A'' (10 * 2) (3 / 10) = Some c2"
    and c4: "generate_collaborative_recommendations mixed_db ''A'' (2 * 2) (3 / 10) = Some c2"
    and c10: "generate_collaborative_recommendations mixed_db ''A'' 10 (3 / 10) = Some c2"
    and c2': "generate_collaborative_recommendations mixed_db ''A'' 2 (3 / 10) = Some c2"
    by (simp_all add: mx_collab c2_def)
  have t20: "generate_content_based_recommendations mixed_db ''A'' (10 * 2) (3 / 10) = Some t2"
    and t4: "generate_content_based_recommendations mixed_db ''A'' (2 * 2) (3 / 10) = Some t2"
    by (simp_all add: mx_content t2_def)
  have ids: "map rec_id (c2 @ t2) = [mk_id CHR ''6'', mk_id CHR ''5'', mk_id CHR ''7'']"
    by (simp add: c2_def t2_def mx_rec_id str_oid_mk_oid)
  have once: "distinct (map rec_id (c2 @ t2))"
    unfolding ids by (simp add: mk_id_eq)
  have scores: "map (\<lambda>r. recommendation_score r / recommendation_score (hd c2)) c2
                  @ map (\<lambda>r. 0) t2 = [1, 4 / 5, 0]"
    by (simp add: c2_def t2_def mx_score)
  from hybrid_begins_with_collaborative [OF mx_valid c20 t20 once]
  obtain h where h: "generate_hybrid_recommendations mixed_db ''A'' 10 1 0 (3 / 10) = Some h"
    and h_ids: "map rec_id h = take 10 (map rec_id (c2 @ t2))"
    and h_scores: "map recommendation_score h
        = take 10 (map (\<lambda>r. recommendation_score r / recommendation_score (hd c2)) c2
                   @ map (\<lambda>r. 0) t2)"
    by blast
  have first: "\<exists>h. generate_hybrid_recommendations mixed_db ''A'' 10 1 0 (3 / 10) = Some h
          \<and> map rec_id h = [mk_id CHR ''6'', mk_id CHR ''5'', mk_id CHR ''7'']
          \<and> map recommendation_score h = [1, 4 / 5, 0]"
  proof (rule exI[of _ h], intro conjI)
    show "generate_hybrid_recommendations mixed_db ''A'' 10 1 0 (3 / 10) = Some h" by (rule h)
    show "map rec_id h = [mk_id CHR ''6'', mk_id CHR ''5'', mk_id CHR ''7'']"
      unfolding h_ids ids by simp
    show "map recommendation_score h = [1, 4 / 5, 0]"
      unfolding h_scores scores by simp
  qed
  from hybrid_begins_with_collaborative [OF mx_valid c4 t4 once]
  obtain g where g: "generate_hybrid_recommendations mixed_db ''A'' 2 1 0 (3 / 10) = Some g"
    and g_ids: "map rec_id g = take 2 (map rec_id (c2 @ t2))"
    and g_scores: "map recommendation_score g
        = take 2 (map (\<lambda>r. recommendation_score r / recommendation_score (hd c2)) c2
                  @ map (\<lambda>r. 0) t2)"
    by blast
  have second: "\<exists>h. generate_hybrid_recommendations mixed_db ''A'' 2 1 0 (3 / 10) = Some h
          \<and> map rec_id h = [mk_id CHR ''6'', mk_id CHR ''5'']
          \<and> map recommendation_score h = [1, 4 / 5]"
  proof (rule exI[of _ g], intro conjI)
    show "generate_hybrid_recommendations mixed_db ''A'' 2 1 0 (3 / 10) = Some g" by (rule g)
    show "map rec_id g = [mk_id CHR ''6'', mk_id CHR ''5'']"
      unfolding g_ids ids by simp
    show "map recommendation_score g = [1, 4 / 5]"
      unfolding g_scores scores by simp
  qed
  show ?thesis
    using mx_valid c20 c10 c2' t20 first second unfolding c2_def t2_def by (intro conjI)
qed

text \<open>
  The claim as stated fails when the content recommender has something to offer: user A
  has rated one action movie with 5, and nobody else has rated anything. The collaborative
  recommender returns nothing for A, while the hybrid blender, at weights 1 and 0, returns
  the other action movie (with score 0).
\<close>

theorem hybrid_order_counterexample:
  "valid_store content_only_db
   \<and> generate_collaborative_recommendations content_only_db ''A'' 10 (3 / 10) = Some []
   \<and> map_option (map rec_id)
         (generate_hybrid_recommendations content_only_db ''A'' 10 1 0 (3 / 10))
       = Some [mk_id CHR ''3'']"
  by (simp add: cn_valid cn_collab cn_hybrid)


end
